theory Spec2Isabelle
  imports Complex_Main "HOL-Library.Multiset" "HOL-Library.AList"
    "HOL-Library.List_Lexorder" "HOL-Library.Char_ord"
begin

section \<open>Python values used by the trainer\<close>

text \<open>
  The exceptions that the modelled statements of \<^verbatim>\<open>ss_transformer_trainer.py\<close> can raise.
  A function that can raise returns \<open>py_error + 'a\<close>, with \<open>Inl\<close> for the exception.
\<close>

datatype py_error =
    KeyError | IndexError | TypeError | ZeroDivisionError | AttributeError
  | UnboundLocalError | ValueError | OverflowError | FileExistsError | FileNotFoundError
  | IsADirectoryError

text \<open>
  A two-dimensional tensor of token ids, row by row. Moving a tensor to a device
  (\<^verbatim>\<open>.to(device)\<close>) and \<^verbatim>\<open>.contiguous()\<close> do not change its entries.
\<close>

type_synonym tensor = "int list list"

text \<open>A batch is a tuple of tensors or a mapping from names to tensors, by model family.\<close>

datatype batch = BatchTuple "tensor list" | BatchDict "(string \<times> tensor) list"

section \<open>The input-batch adapter\<close>

text \<open>\<^verbatim>\<open>batch["name"]\<close>: a tuple cannot be indexed by a string, a mapping raises on a missing key.\<close>

fun batch_key :: "batch \<Rightarrow> string \<Rightarrow> py_error + tensor" where
  "batch_key (BatchTuple ts) k = Inl TypeError"
| "batch_key (BatchDict kvs) k = (case map_of kvs k of None \<Rightarrow> Inl KeyError | Some t \<Rightarrow> Inr t)"

text \<open>\<^verbatim>\<open>batch[i]\<close> for the literal indices 0 and 1; the keys of a mapping batch are names.\<close>

fun batch_index :: "batch \<Rightarrow> nat \<Rightarrow> py_error + tensor" where
  "batch_index (BatchTuple ts) i = (if i < length ts then Inr (ts ! i) else Inl IndexError)"
| "batch_index (BatchDict kvs) i = Inl KeyError"

text \<open>\<^verbatim>\<open>t[t == pad] = -100\<close> on a clone of \<open>t\<close>.\<close>

definition mask_pad :: "int \<Rightarrow> tensor \<Rightarrow> tensor" where
  "mask_pad pad t = map (map (\<lambda>x. if x = pad then - 100 else x)) t"

text \<open>
  \<^verbatim>\<open>_get_inputs_dict\<close>, with the model type of the configuration and the pad ids of the
  encoder and decoder tokenizers as arguments. The result lists the entries of the
  returned mapping in insertion order.
\<close>

definition get_inputs_dict ::
  "string \<Rightarrow> int \<Rightarrow> int \<Rightarrow> batch \<Rightarrow> py_error + (string \<times> tensor) list" where
  "get_inputs_dict model_type enc_pad dec_pad b =
    (if model_type \<in> set [''bart'', ''marian''] then
       (case batch_key b ''source_ids'' of Inl e \<Rightarrow> Inl e | Inr source_ids \<Rightarrow>
        case batch_key b ''source_mask'' of Inl e \<Rightarrow> Inl e | Inr source_mask \<Rightarrow>
        case batch_key b ''target_ids'' of Inl e \<Rightarrow> Inl e | Inr y \<Rightarrow>
          let y_ids = map butlast y;
              lm_labels = mask_pad enc_pad (map tl y)
          in Inr [(''input_ids'', source_ids), (''attention_mask'', source_mask),
                  (''decoder_input_ids'', y_ids), (''labels'', lm_labels)])
     else if model_type \<in> set [''mbart''] then
       (case batch_key b ''input_ids'' of Inl e \<Rightarrow> Inl e | Inr input_ids \<Rightarrow>
        case batch_key b ''attention_mask'' of Inl e \<Rightarrow> Inl e | Inr attention_mask \<Rightarrow>
        case batch_key b ''decoder_input_ids'' of Inl e \<Rightarrow> Inl e | Inr decoder_input_ids \<Rightarrow>
        case batch_key b ''labels'' of Inl e \<Rightarrow> Inl e | Inr labels \<Rightarrow>
          Inr [(''input_ids'', input_ids), (''attention_mask'', attention_mask),
               (''decoder_input_ids'', decoder_input_ids), (''labels'', labels)])
     else
       (case batch_index b 1 of Inl e \<Rightarrow> Inl e | Inr lm_labels \<Rightarrow>
          let lm_labels_masked = mask_pad dec_pad lm_labels
          in case batch_index b 0 of Inl e \<Rightarrow> Inl e | Inr input_ids \<Rightarrow>
            Inr [(''input_ids'', input_ids), (''decoder_input_ids'', lm_labels),
                 (''labels'', lm_labels_masked)]))"

section \<open>Evaluation index ranges\<close>

text \<open>
  The row range that the evaluation loop computes for batch \<open>i\<close>:
  \<^verbatim>\<open>start_index = eval_batch_size * i\<close> and
  \<^verbatim>\<open>end_index = start_index + eval_batch_size if i != (n_batches - 1) else test_sample_len\<close>.
\<close>

definition batch_range :: "int \<Rightarrow> int \<Rightarrow> int \<Rightarrow> int \<Rightarrow> int \<times> int" where
  "batch_range eval_batch_size n_batches test_sample_len i =
    (let start_index = eval_batch_size * i;
         end_index = (if i \<noteq> n_batches - 1 then start_index + eval_batch_size
                      else test_sample_len)
     in (start_index, end_index))"

section \<open>Strings\<close>

text \<open>\<^verbatim>\<open>sub in s\<close> on Python strings: \<open>sub\<close> occurs in \<open>s\<close> as a contiguous substring.\<close>

fun starts_with :: "'a list \<Rightarrow> 'a list \<Rightarrow> bool" where
  "starts_with s [] = True"
| "starts_with [] (c # cs) = False"
| "starts_with (x # xs) (c # cs) = (x = c \<and> starts_with xs cs)"

fun str_contains :: "'a list \<Rightarrow> 'a list \<Rightarrow> bool" where
  "str_contains sub [] = (sub = [])"
| "str_contains sub (x # xs) = (starts_with (x # xs) sub \<or> str_contains sub xs)"

text \<open>\<^verbatim>\<open>str(n)\<close> for a Python int: its decimal digits, with a minus sign when negative.\<close>

fun str_nat :: "nat \<Rightarrow> string" where
  "str_nat n = (if n < 10 then [''0123456789'' ! n]
                else str_nat (n div 10) @ [''0123456789'' ! (n mod 10)])"

declare str_nat.simps [simp del]

definition str_int :: "int \<Rightarrow> string" where
  "str_int i = (if i < 0 then CHR ''-'' # str_nat (nat (- i)) else str_nat (nat i))"

section \<open>Python floats where they are converted to integers\<close>

text \<open>
  The warmup-step count is \<^verbatim>\<open>math.ceil(iteration_in_total * warmup_ratio)\<close>, a float
  product turned into an int, so its value depends on the rounding of the product. A Python
  float is an IEEE 754 binary64 number: \<open>Finite m e\<close> stands for \<open>m * 2 ^ e\<close>; a binary64
  number has \<open>\<bar>m\<bar> < 2 ^ 53\<close> and \<open>- 1074 \<le> e \<le> 971\<close>. The sign of a zero is not
  represented (it does not change a product's ceiling).
\<close>

datatype pyfloat = Finite int int | PosInf | NegInf | NaN

text \<open>\<^verbatim>\<open>int.bit_length\<close> of a natural number.\<close>

fun bit_length :: "nat \<Rightarrow> nat" where
  "bit_length n = (if n = 0 then 0 else Suc (bit_length (n div 2)))"

declare bit_length.simps [simp del]

text \<open>\<open>a / 2 ^ k\<close> rounded to the nearest integer, a tie to the even one.\<close>

definition round_half_even :: "nat \<Rightarrow> nat \<Rightarrow> nat" where
  "round_half_even a k =
    (let q = a div 2 ^ k; r = a mod 2 ^ k
     in if 2 ^ k < 2 * r \<or> (2 * r = 2 ^ k \<and> odd q) then q + 1 else q)"

text \<open>
  The binary64 number nearest to \<open>m * 2 ^ e\<close> (ties to even): \<open>k\<close> low bits are dropped,
  as many as the 53-bit precision or the least exponent \<open>- 1074\<close> asks for; a result of
  magnitude \<open>2 ^ 1024\<close> or more overflows to an infinity.
\<close>

definition round_double :: "int \<Rightarrow> int \<Rightarrow> pyfloat" where
  "round_double m e =
    (let a = nat \<bar>m\<bar>;
         k = max (int (bit_length a) - 53) (- 1074 - e);
         q = (if k \<le> 0 then a else round_half_even a (nat k));
         e' = (if k \<le> 0 then e else e + k)
     in if q \<noteq> 0 \<and> 1024 < int (bit_length q) + e'
        then (if m < 0 then NegInf else PosInf)
        else Finite (sgn m * int q) e')"

text \<open>\<^verbatim>\<open>float(n)\<close> for a Python int: correctly rounded, OverflowError when too large.\<close>

definition float_of_int :: "int \<Rightarrow> py_error + pyfloat" where
  "float_of_int n =
    (case round_double n 0 of Finite m e \<Rightarrow> Inr (Finite m e) | _ \<Rightarrow> Inl OverflowError)"

text \<open>The float product: the exact product, correctly rounded; the IEEE special cases.\<close>

fun float_mul :: "pyfloat \<Rightarrow> pyfloat \<Rightarrow> pyfloat" where
  "float_mul (Finite m1 e1) (Finite m2 e2) = round_double (m1 * m2) (e1 + e2)"
| "float_mul NaN y = NaN"
| "float_mul x NaN = NaN"
| "float_mul (Finite m e) PosInf = (if m = 0 then NaN else if 0 < m then PosInf else NegInf)"
| "float_mul (Finite m e) NegInf = (if m = 0 then NaN else if 0 < m then NegInf else PosInf)"
| "float_mul PosInf (Finite m e) = (if m = 0 then NaN else if 0 < m then PosInf else NegInf)"
| "float_mul NegInf (Finite m e) = (if m = 0 then NaN else if 0 < m then NegInf else PosInf)"
| "float_mul PosInf PosInf = PosInf"
| "float_mul PosInf NegInf = NegInf"
| "float_mul NegInf PosInf = NegInf"
| "float_mul NegInf NegInf = PosInf"

text \<open>\<^verbatim>\<open>n * x\<close> for an int \<open>n\<close> and a float \<open>x\<close>: the int is converted first.\<close>

definition int_times_float :: "int \<Rightarrow> pyfloat \<Rightarrow> py_error + pyfloat" where
  "int_times_float n x =
    (case float_of_int n of Inl err \<Rightarrow> Inl err | Inr f \<Rightarrow> Inr (float_mul f x))"

text \<open>\<^verbatim>\<open>math.ceil\<close>: OverflowError on an infinity, ValueError on a NaN.\<close>

fun py_ceil :: "pyfloat \<Rightarrow> py_error + int" where
  "py_ceil (Finite m e) =
     Inr (if 0 \<le> e then m * 2 ^ nat e else - ((- m) div 2 ^ nat (- e)))"
| "py_ceil PosInf = Inl OverflowError"
| "py_ceil NegInf = Inl OverflowError"
| "py_ceil NaN = Inl ValueError"

text \<open>The rational number that a finite float stands for.\<close>

definition float_value :: "int \<Rightarrow> int \<Rightarrow> rat" where
  "float_value m e = (if 0 \<le> e then of_int m * 2 ^ nat e else of_int m / 2 ^ nat (- e))"

section \<open>Configuration and parameter groups\<close>

text \<open>
  The values found in the group dictionaries of the configuration: floats (learning rate,
  weight decay), ints (layer numbers) and lists of parameter names. Floats that are only
  stored, compared or used in tensor arithmetic are real numbers here.
\<close>

datatype pyval = VFloat real | VInt int | VNames "string list"

type_synonym pydict = "(string \<times> pyval) list"

text \<open>
  An optimizer parameter group is a dictionary whose \<^verbatim>\<open>"params"\<close> entry is a list of
  parameter objects; a parameter object is identified by a number (its identity).
\<close>

datatype optval = Conf pyval | Params "nat list"

type_synonym param_group = "(string \<times> optval) list"

text \<open>The fields of \<^verbatim>\<open>self.args\<close> that the trainer reads or writes.\<close>

record config =
  custom_parameter_groups :: "pydict list"
  custom_layer_parameters :: "pydict list"
  train_custom_parameters_only :: bool
  weight_decay :: real
  learning_rate :: real
  adam_epsilon :: real
  max_grad_norm :: real
  gradient_accumulation_steps :: int
  epochs :: int
  n_gpu :: int
  fp16 :: bool
  evaluate_during_training :: bool
  fl_algorithm :: string
  fedprox_mu :: real
  warmup_ratio :: pyfloat
  warmup_steps :: int
  model_type :: string
  eval_batch_size :: int
  output_dir :: string
  evaluate_generated_text :: bool

text \<open>\<^verbatim>\<open>d.pop(k)\<close>: the value and the dictionary without the key, KeyError when absent.\<close>

definition dict_pop :: "string \<Rightarrow> (string \<times> 'v) list \<Rightarrow> py_error + ('v \<times> (string \<times> 'v) list)" where
  "dict_pop k d = (case map_of d k of None \<Rightarrow> Inl KeyError | Some v \<Rightarrow> Inr (v, AList.delete k d))"

text \<open>\<^verbatim>\<open>{**group}\<close>: a copy of the group's remaining entries, in their order.\<close>

definition copy_group :: "pydict \<Rightarrow> param_group" where
  "copy_group g = map (\<lambda>(k, v). (k, Conf v)) g"

text \<open>\<^verbatim>\<open>any(nd in n for nd in no_decay)\<close> with \<^verbatim>\<open>no_decay = ["bias", "LayerNorm.weight"]\<close>.\<close>

definition no_decay :: "string list" where
  "no_decay = [''bias'', ''LayerNorm.weight'']"

definition any_no_decay :: "string \<Rightarrow> bool" where
  "any_no_decay n = list_ex (\<lambda>nd. str_contains nd n) no_decay"

text \<open>
  One round of the loop over \<^verbatim>\<open>args.custom_parameter_groups\<close>. It returns the group as the
  loop leaves it in the configuration, the parameter group appended to
  \<^verbatim>\<open>optimizer_grouped_parameters\<close>, and the updated \<^verbatim>\<open>custom_parameter_names\<close>. A
  \<^verbatim>\<open>"params"\<close> value that is a number cannot be iterated.
\<close>

definition custom_group_step ::
  "(string \<times> nat) list \<Rightarrow> pydict \<Rightarrow> string set
    \<Rightarrow> py_error + (pydict \<times> param_group \<times> string set)" where
  "custom_group_step named grp names =
    (case dict_pop ''params'' grp of
       Inl e \<Rightarrow> Inl e
     | Inr (v, grp') \<Rightarrow>
        (case v of
           VNames params \<Rightarrow>
             Inr (grp',
                  AList.update ''params''
                    (Params (map snd (filter (\<lambda>(n, p). n \<in> set params) named)))
                    (copy_group grp'),
                  names \<union> set params)
         | _ \<Rightarrow> Inl TypeError))"

fun custom_groups_loop ::
  "(string \<times> nat) list \<Rightarrow> pydict list \<Rightarrow> string set
    \<Rightarrow> py_error + (pydict list \<times> param_group list \<times> string set)" where
  "custom_groups_loop named [] names = Inr ([], [], names)"
| "custom_groups_loop named (g # gs) names =
    (case custom_group_step named g names of
       Inl e \<Rightarrow> Inl e
     | Inr (g', pg, names') \<Rightarrow>
        (case custom_groups_loop named gs names' of
           Inl e \<Rightarrow> Inl e
         | Inr (gs', pgs, names'') \<Rightarrow> Inr (g' # gs', pg # pgs, names'')))"

text \<open>
  The inner loop over \<^verbatim>\<open>named_parameters()\<close> for one layer group: the state is
  \<^verbatim>\<open>params_d\<close>, \<^verbatim>\<open>params_nd\<close> and \<^verbatim>\<open>custom_parameter_names\<close>.
\<close>

fun layer_params_loop ::
  "string \<Rightarrow> (string \<times> nat) list \<Rightarrow> nat list \<times> nat list \<times> string set
    \<Rightarrow> nat list \<times> nat list \<times> string set" where
  "layer_params_loop layer [] st = st"
| "layer_params_loop layer ((n, p) # rest) (params_d, params_nd, names) =
    (if n \<notin> names \<and> str_contains layer n then
       (if any_no_decay n
        then layer_params_loop layer rest (params_d, params_nd @ [p], insert n names)
        else layer_params_loop layer rest (params_d @ [p], params_nd, insert n names))
     else layer_params_loop layer rest (params_d, params_nd, names))"

text \<open>
  \<^verbatim>\<open>f"layer.{layer_number}."\<close>: an int is written in decimal; the text of any other value
  is given by the parameter \<open>fmt\<close>.
\<close>

definition format_value :: "(pyval \<Rightarrow> string) \<Rightarrow> pyval \<Rightarrow> string" where
  "format_value fmt v = (case v of VInt i \<Rightarrow> str_int i | _ \<Rightarrow> fmt v)"

text \<open>One round of the loop over \<^verbatim>\<open>args.custom_layer_parameters\<close>; it appends two groups.\<close>

definition layer_group_step ::
  "(pyval \<Rightarrow> string) \<Rightarrow> (string \<times> nat) list \<Rightarrow> pydict \<Rightarrow> string set
    \<Rightarrow> py_error + (pydict \<times> param_group list \<times> string set)" where
  "layer_group_step fmt named grp names =
    (case dict_pop ''layer'' grp of
       Inl e \<Rightarrow> Inl e
     | Inr (layer_number, grp') \<Rightarrow>
        (let layer = ''layer.'' @ format_value fmt layer_number @ ''.'';
             group_d = copy_group grp';
             group_nd = AList.update ''weight_decay'' (Conf (VFloat 0)) (copy_group grp')
         in case layer_params_loop layer named ([], [], names) of
              (params_d, params_nd, names') \<Rightarrow>
                Inr (grp',
                     [AList.update ''params'' (Params params_d) group_d,
                      AList.update ''params'' (Params params_nd) group_nd],
                     names')))"

fun layer_groups_loop ::
  "(pyval \<Rightarrow> string) \<Rightarrow> (string \<times> nat) list \<Rightarrow> pydict list \<Rightarrow> string set
    \<Rightarrow> py_error + (pydict list \<times> param_group list \<times> string set)" where
  "layer_groups_loop fmt named [] names = Inr ([], [], names)"
| "layer_groups_loop fmt named (g # gs) names =
    (case layer_group_step fmt named g names of
       Inl e \<Rightarrow> Inl e
     | Inr (g', pgs, names') \<Rightarrow>
        (case layer_groups_loop fmt named gs names' of
           Inl e \<Rightarrow> Inl e
         | Inr (gs', pgs', names'') \<Rightarrow> Inr (g' # gs', pgs @ pgs', names'')))"

text \<open>The two catch-all groups added unless \<^verbatim>\<open>train_custom_parameters_only\<close> is set.\<close>

definition default_groups :: "config \<Rightarrow> (string \<times> nat) list \<Rightarrow> string set \<Rightarrow> param_group list" where
  "default_groups cfg named names =
    [[(''params'', Params (map snd (filter (\<lambda>(n, p). n \<notin> names \<and> \<not> any_no_decay n) named))),
      (''weight_decay'', Conf (VFloat (weight_decay cfg)))],
     [(''params'', Params (map snd (filter (\<lambda>(n, p). n \<notin> names \<and> any_no_decay n) named))),
      (''weight_decay'', Conf (VFloat 0))]]"

text \<open>
  The parameter-group construction at the head of \<^verbatim>\<open>train_model\<close>: it returns the list
  \<^verbatim>\<open>optimizer_grouped_parameters\<close> and the configuration as the two loops leave it
  (\<^verbatim>\<open>group.pop\<close> removes keys from the configuration's own dictionaries).
\<close>

definition optimizer_grouped_parameters ::
  "(pyval \<Rightarrow> string) \<Rightarrow> config \<Rightarrow> (string \<times> nat) list \<Rightarrow> py_error + (param_group list \<times> config)" where
  "optimizer_grouped_parameters fmt cfg named =
    (case custom_groups_loop named (custom_parameter_groups cfg) {} of
       Inl e \<Rightarrow> Inl e
     | Inr (cgs, pgs1, names1) \<Rightarrow>
        (case layer_groups_loop fmt named (custom_layer_parameters cfg) names1 of
           Inl e \<Rightarrow> Inl e
         | Inr (lgs, pgs2, names2) \<Rightarrow>
             Inr (pgs1 @ pgs2 @
                    (if \<not> train_custom_parameters_only cfg
                     then default_groups cfg named names2 else []),
                  cfg\<lparr>custom_parameter_groups := cgs, custom_layer_parameters := lgs\<rparr>)))"

text \<open>The \<^verbatim>\<open>"params"\<close> entry of a parameter group.\<close>

definition group_params :: "param_group \<Rightarrow> nat list" where
  "group_params g = (case map_of g ''params'' of Some (Params ps) \<Rightarrow> ps | _ \<Rightarrow> [])"

section \<open>Optimizer and scheduler\<close>

text \<open>
  The library's optimizers and scheduler are modelled by what their constructors are
  given. An optimizer constructed from an iterable of parameters has one parameter group
  holding all of them, with the given options and the library's default weight decay of 0;
  the library's own validation of its arguments is not modelled.
\<close>

datatype optimizer_family = AdamW | SGD

record optimizer =
  family :: optimizer_family
  param_groups :: "param_group list"

record scheduler =
  num_warmup_steps :: int
  num_training_steps :: int

definition new_AdamW :: "nat list \<Rightarrow> real \<Rightarrow> real \<Rightarrow> optimizer" where
  "new_AdamW ps lr eps =
    \<lparr>family = AdamW,
     param_groups = [[(''params'', Params ps), (''lr'', Conf (VFloat lr)),
                      (''eps'', Conf (VFloat eps)), (''weight_decay'', Conf (VFloat 0))]]\<rparr>"

definition new_SGD :: "nat list \<Rightarrow> real \<Rightarrow> optimizer" where
  "new_SGD ps lr =
    \<lparr>family = SGD,
     param_groups = [[(''params'', Params ps), (''lr'', Conf (VFloat lr)),
                      (''weight_decay'', Conf (VFloat 0))]]\<rparr>"

text \<open>
  \<^verbatim>\<open>build_optimizer(model, iteration_in_total)\<close>, with \<^verbatim>\<open>model.parameters()\<close> as the list
  \<open>ps\<close>. It returns the configuration with its \<^verbatim>\<open>warmup_steps\<close> written, the
  optimizer and the scheduler.
\<close>

definition build_optimizer ::
  "config \<Rightarrow> nat list \<Rightarrow> int \<Rightarrow> py_error + (config \<times> optimizer \<times> scheduler)" where
  "build_optimizer cfg ps iteration_in_total =
    (case int_times_float iteration_in_total (warmup_ratio cfg) of
       Inl e \<Rightarrow> Inl e
     | Inr product \<Rightarrow>
        (case py_ceil product of
           Inl e \<Rightarrow> Inl e
         | Inr ws \<Rightarrow>
            (let cfg' = cfg\<lparr>warmup_steps := (if warmup_steps cfg = 0 then ws else warmup_steps cfg)\<rparr>;
                 opt = (if fl_algorithm cfg' = ''FedOPT'' \<or> fl_algorithm cfg' = []
                        then new_AdamW ps (learning_rate cfg') (adam_epsilon cfg')
                        else new_SGD ps (learning_rate cfg'));
                 sched = \<lparr>num_warmup_steps = warmup_steps cfg',
                          num_training_steps = iteration_in_total\<rparr>
             in Inr (cfg', opt, sched))))"

section \<open>The deep-learning runtime\<close>

text \<open>
  The model with its weights and gradients, the optimizer's state and the gradient scaler
  are one value of the type \<open>'r\<close>, opaque here; the library operations on it are the
  fields of an environment. Tensor arithmetic is over the real numbers; a loss tensor and
  a parameter tensor are the lists of their entries. The configuration is passed where an
  operation depends on it (mixed precision, the gradient-norm bound).

  The text of a float and of a layer entry that is not an int are parameters too.
\<close>

datatype metric = MFloat real | MText string

record 'r torch =
  named_parameters :: "'r \<Rightarrow> (string \<times> nat) list"
  parameter_values :: "'r \<Rightarrow> real list list"
  forward_loss :: "config \<Rightarrow> 'r \<Rightarrow> (string \<times> tensor) list \<Rightarrow> real list"
  backward :: "config \<Rightarrow> 'r \<Rightarrow> real list \<Rightarrow> 'r"
  optimizer_step :: "config \<Rightarrow> optimizer \<Rightarrow> scheduler \<Rightarrow> 'r \<Rightarrow> 'r"
  zero_grad :: "'r \<Rightarrow> 'r"
  format_other :: "pyval \<Rightarrow> string"
  float_str :: "real \<Rightarrow> string"

text \<open>
  The trainer object: its configuration, its model, the two data loaders (the batches one
  pass yields), the length of the test loader's dataset, the tokenizers' pad ids and the
  cumulative results.
\<close>

record 'r trainer =
  args :: config
  model :: 'r
  train_dl :: "batch list"
  test_dl :: "batch list"
  test_dataset_len :: int
  encoder_pad_token_id :: int
  decoder_pad_token_id :: int
  results :: "(string \<times> metric) list"

definition inputs_dict :: "'r trainer \<Rightarrow> batch \<Rightarrow> py_error + (string \<times> tensor) list" where
  "inputs_dict self b =
    get_inputs_dict (model_type (args self)) (encoder_pad_token_id self)
      (decoder_pad_token_id self) b"

text \<open>\<^verbatim>\<open>loss.item()\<close>: the entry of a one-element tensor.\<close>

definition item :: "real list \<Rightarrow> py_error + real" where
  "item t = (case t of [x] \<Rightarrow> Inr x | _ \<Rightarrow> Inl ValueError)"

text \<open>\<^verbatim>\<open>loss.mean()\<close>.\<close>

definition tensor_mean :: "real list \<Rightarrow> real list" where
  "tensor_mean t = [sum_list t / real (length t)]"

text \<open>\<^verbatim>\<open>torch.norm\<close>: the square root of the sum of the squared entries.\<close>

definition l2_norm :: "real list \<Rightarrow> real" where
  "l2_norm v = sqrt (\<Sum>x\<leftarrow>v. x\<^sup>2)"

text \<open>
  The loop that accumulates \<^verbatim>\<open>fed_prox_reg\<close> over
  \<^verbatim>\<open>zip(self.model.parameters(), global_model.parameters())\<close>.
\<close>

definition fed_prox_reg :: "real \<Rightarrow> real list list \<Rightarrow> real list list \<Rightarrow> real" where
  "fed_prox_reg mu ps gs =
    foldl (\<lambda>reg (p, g_p). reg + (mu / 2) * (l2_norm (map2 (-) p g_p))\<^sup>2) 0 (zip ps gs)"

section \<open>The training loop\<close>

text \<open>
  The local variables of \<^verbatim>\<open>train_model\<close> that the loop reads and writes, with the lines
  the loop logs (epoch, batch index, number of batches, current loss). \<^verbatim>\<open>global_model\<close> is
  bound only under FedProx.
\<close>

record 'r train_state =
  runtime :: 'r
  global_step :: int
  tr_loss :: real
  global_model :: "real list list option"
  loss_log :: "(int \<times> int \<times> int \<times> real) list"

text \<open>The body of the loop over the batches of an epoch.\<close>

definition train_batch ::
  "'r torch \<Rightarrow> 'r trainer \<Rightarrow> optimizer \<Rightarrow> scheduler \<Rightarrow> int \<Rightarrow> 'r train_state \<Rightarrow> int \<Rightarrow> batch
    \<Rightarrow> py_error + 'r train_state" where
  "train_batch env self opt sched epoch st batch_idx b =
    (let cfg = args self in
     case inputs_dict self b of
       Inl e \<Rightarrow> Inl e
     | Inr inputs \<Rightarrow>
        (let loss0 = forward_loss env cfg (runtime st) inputs;
             loss1 = (if n_gpu cfg > 1 then tensor_mean loss0 else loss0)
         in case (if fl_algorithm cfg = ''FedProx''
                  then (case global_model st of
                          None \<Rightarrow> Inl UnboundLocalError
                        | Some g \<Rightarrow>
                            Inr (map (\<lambda>x. x + fed_prox_reg (fedprox_mu cfg)
                                               (parameter_values env (runtime st)) g) loss1))
                  else Inr loss1) of
              Inl e \<Rightarrow> Inl e
            | Inr loss2 \<Rightarrow>
               (case item loss2 of
                  Inl e \<Rightarrow> Inl e
                | Inr current_loss \<Rightarrow>
                   (let loss3 = (if gradient_accumulation_steps cfg > 1
                                 then map (\<lambda>x. x / real_of_int (gradient_accumulation_steps cfg)) loss2
                                 else loss2);
                        rt1 = backward env cfg (runtime st) loss3
                    in case item loss3 of
                         Inl e \<Rightarrow> Inl e
                       | Inr l \<Rightarrow>
                          (if gradient_accumulation_steps cfg = 0 then Inl ZeroDivisionError
                           else
                             (let st1 = st\<lparr>runtime := rt1, tr_loss := tr_loss st + l,
                                           loss_log := loss_log st @
                                             [(epoch, batch_idx, int (length (train_dl self)),
                                               current_loss)]\<rparr>
                              in Inr (if (batch_idx + 1) mod gradient_accumulation_steps cfg = 0
                                      then st1\<lparr>runtime := optimizer_step env cfg opt sched rt1,
                                               global_step := global_step st1 + 1\<rparr>
                                      else st1)))))))"

text \<open>\<^verbatim>\<open>for batch_idx, batch in enumerate(self.train_dl)\<close>.\<close>

fun run_batches ::
  "'r torch \<Rightarrow> 'r trainer \<Rightarrow> optimizer \<Rightarrow> scheduler \<Rightarrow> int \<Rightarrow> 'r train_state \<Rightarrow> int \<Rightarrow> batch list
    \<Rightarrow> py_error + 'r train_state" where
  "run_batches env self opt sched epoch st batch_idx [] = Inr st"
| "run_batches env self opt sched epoch st batch_idx (b # bs) =
    (case train_batch env self opt sched epoch st batch_idx b of
       Inl e \<Rightarrow> Inl e
     | Inr st' \<Rightarrow> run_batches env self opt sched epoch st' (batch_idx + 1) bs)"

text \<open>\<^verbatim>\<open>for epoch in range(0, args.epochs)\<close>: the epoch number and the epochs still to run.\<close>

fun run_epochs ::
  "'r torch \<Rightarrow> 'r trainer \<Rightarrow> optimizer \<Rightarrow> scheduler \<Rightarrow> 'r train_state \<Rightarrow> int \<Rightarrow> nat
    \<Rightarrow> py_error + 'r train_state" where
  "run_epochs env self opt sched st epoch 0 = Inr st"
| "run_epochs env self opt sched st epoch (Suc k) =
    (case run_batches env self opt sched epoch st 0 (train_dl self) of
       Inl e \<Rightarrow> Inl e
     | Inr st' \<Rightarrow> run_epochs env self opt sched st' (epoch + 1) k)"

text \<open>
  What a call of \<^verbatim>\<open>train_model\<close> that returns leaves behind: the returned pair, the trainer
  (its configuration and model as the call leaves them), and the local values
  \<^verbatim>\<open>optimizer_grouped_parameters\<close>, \<^verbatim>\<open>optimizer\<close>, \<^verbatim>\<open>scheduler\<close> and the loop's variables.
\<close>

record 'r train_result =
  returned :: "int \<times> real"
  self_after :: "'r trainer"
  grouped_parameters :: "param_group list"
  built_optimizer :: optimizer
  built_scheduler :: scheduler
  final_state :: "'r train_state"

text \<open>
  \<^verbatim>\<open>train_model\<close>. \<^verbatim>\<open>self._create_training_progress_scores\<close> is not defined in the class,
  so \<^verbatim>\<open>evaluate_during_training\<close> raises AttributeError. The division
  \<^verbatim>\<open>tr_loss / global_step\<close> raises when no optimizer step was made.
  Moving the model to a device, wrapping it for several devices and switching it to
  training mode do not change what is modelled and are left out; an exception is reported
  without the state it leaves behind.
\<close>

definition train_model :: "'r torch \<Rightarrow> 'r trainer \<Rightarrow> py_error + 'r train_result" where
  "train_model env self =
    (case optimizer_grouped_parameters (format_other env) (args self)
            (named_parameters env (model self)) of
       Inl e \<Rightarrow> Inl e
     | Inr (groups, args1) \<Rightarrow>
        (if gradient_accumulation_steps args1 = 0 then Inl ZeroDivisionError
         else
          (let iteration_in_total =
                 int (length (train_dl self)) div gradient_accumulation_steps args1 * epochs args1
           in case build_optimizer args1 (map snd (named_parameters env (model self)))
                     iteration_in_total of
                Inl e \<Rightarrow> Inl e
              | Inr (args2, opt, sched) \<Rightarrow>
                 (if evaluate_during_training args2 then Inl AttributeError
                  else
                   (let rt0 = zero_grad env (model self);
                        self1 = self\<lparr>args := args2, model := rt0\<rparr>;
                        st0 = \<lparr>runtime = rt0, global_step = 0, tr_loss = 0,
                               global_model =
                                 (if fl_algorithm args2 = ''FedProx''
                                  then Some (parameter_values env rt0) else None),
                               loss_log = []\<rparr>
                    in case run_epochs env self1 opt sched st0 0 (nat (epochs args2)) of
                         Inl e \<Rightarrow> Inl e
                       | Inr st \<Rightarrow>
                          (if global_step st = 0 then Inl ZeroDivisionError
                           else Inr \<lparr>returned =
                                       (global_step st,
                                        tr_loss st / real_of_int (global_step st)),
                                     self_after = self1\<lparr>model := runtime st\<rparr>,
                                     grouped_parameters = groups,
                                     built_optimizer = opt,
                                     built_scheduler = sched,
                                     final_state = st\<rparr>))))))"

section \<open>The evaluation loop\<close>

text \<open>
  The file system as \<^verbatim>\<open>eval_model\<close> uses it: the set of directories and the contents of
  the files, by path.
\<close>

record filesystem =
  dirs :: "string set"
  files :: "string \<Rightarrow> string option"

text \<open>\<^verbatim>\<open>os.makedirs(path, exist_ok=True)\<close>.\<close>

definition makedirs :: "string \<Rightarrow> filesystem \<Rightarrow> py_error + filesystem" where
  "makedirs path fs =
    (if path = [] then Inl FileNotFoundError
     else if path \<in> dom (files fs) then Inl FileExistsError
     else Inr (fs\<lparr>dirs := insert path (dirs fs)\<rparr>))"

text \<open>\<^verbatim>\<open>os.path.join(a, b)\<close> for a relative \<open>b\<close>.\<close>

definition path_join :: "string \<Rightarrow> string \<Rightarrow> string" where
  "path_join a b = (if a = [] \<or> last a = CHR ''/'' then a @ b else a @ ''/'' @ b)"

text \<open>\<^verbatim>\<open>open(path, "w")\<close> followed by the writes: the file holds what was written.\<close>

definition write_file :: "string \<Rightarrow> string \<Rightarrow> filesystem \<Rightarrow> py_error + filesystem" where
  "write_file path content fs =
    (if path \<in> dirs fs then Inl IsADirectoryError
     else Inr (fs\<lparr>files := (files fs)(path \<mapsto> content)\<rparr>))"

text \<open>\<^verbatim>\<open>d.update(new)\<close>: the entries of \<open>new\<close> are stored in their order.\<close>

definition dict_update :: "(string \<times> 'v) list \<Rightarrow> (string \<times> 'v) list \<Rightarrow> (string \<times> 'v) list" where
  "dict_update d new = foldl (\<lambda>d (k, v). AList.update k v d) d new"

text \<open>\<^verbatim>\<open>str(result[key])\<close>; the text of a float is a parameter.\<close>

definition metric_str :: "(real \<Rightarrow> string) \<Rightarrow> metric \<Rightarrow> string" where
  "metric_str fstr m = (case m of MFloat x \<Rightarrow> fstr x | MText s \<Rightarrow> s)"

text \<open>
  The lines \<^verbatim>\<open>"{} = {}\n".format(key, str(result[key]))\<close> for \<^verbatim>\<open>key in sorted(result.keys())\<close>.
\<close>

definition result_lines :: "(real \<Rightarrow> string) \<Rightarrow> (string \<times> metric) list \<Rightarrow> string list" where
  "result_lines fstr result =
    map (\<lambda>key. case map_of result key of
                  Some v \<Rightarrow> key @ '' = '' @ metric_str fstr v @ [CHR 0x0A]
                | None \<Rightarrow> [])
      (sort (map fst result))"

text \<open>
  \<^verbatim>\<open>batch = tuple(t for t in batch)\<close> followed by \<^verbatim>\<open>self._get_inputs_dict(batch)\<close>. A tuple
  batch stays as it is. Iterating a mapping yields its keys, so a mapping batch becomes a
  tuple of names, on which the adapter fails: indexing a tuple by a name is a TypeError,
  and in the default branch \<^verbatim>\<open>batch[1]\<close> is a name (IndexError when there are fewer than
  two), which has no \<^verbatim>\<open>clone\<close>.
\<close>

definition eval_inputs :: "'r trainer \<Rightarrow> batch \<Rightarrow> py_error + (string \<times> tensor) list" where
  "eval_inputs self b =
    (case b of
       BatchTuple ts \<Rightarrow> inputs_dict self (BatchTuple ts)
     | BatchDict kvs \<Rightarrow>
        (if model_type (args self) \<in> set [''bart'', ''marian''] then Inl TypeError
         else if model_type (args self) \<in> set [''mbart''] then Inl TypeError
         else if length kvs < 2 then Inl IndexError
         else Inl AttributeError))"

text \<open>
  The loop over \<^verbatim>\<open>enumerate(self.test_dl)\<close>: the state is \<^verbatim>\<open>eval_loss\<close>, \<^verbatim>\<open>nb_eval_steps\<close>
  and the logged lines (batch index, start index, end index).
\<close>

fun eval_loop ::
  "'r torch \<Rightarrow> 'r trainer \<Rightarrow> int \<Rightarrow> int \<Rightarrow> real \<times> int \<times> (int \<times> int \<times> int) list \<Rightarrow> batch list
    \<Rightarrow> py_error + (real \<times> int \<times> (int \<times> int \<times> int) list)" where
  "eval_loop env self n_batches i st [] = Inr st"
| "eval_loop env self n_batches i (eval_loss, nb_eval_steps, ranges) (b # bs) =
    (case eval_inputs self b of
       Inl e \<Rightarrow> Inl e
     | Inr inputs \<Rightarrow>
        (case item (forward_loss env (args self) (model self) inputs) of
           Inl e \<Rightarrow> Inl e
         | Inr tmp_eval_loss \<Rightarrow>
            eval_loop env self n_batches (i + 1)
              (eval_loss + tmp_eval_loss, nb_eval_steps + 1,
               ranges @ [(i, batch_range (eval_batch_size (args self)) n_batches
                                (test_dataset_len self) i)])
              bs))"

text \<open>
  \<^verbatim>\<open>eval_model\<close>. It returns the trainer and the file system as the call leaves them,
  also when it raises, and either the exception or the returned result and predictions.
  With \<^verbatim>\<open>evaluate_generated_text\<close> the call \<^verbatim>\<open>self.predict(to_predict)\<close> raises
  AttributeError, after the file was written and the loss merged: the class defines no
  \<^verbatim>\<open>predict\<close> (and no \<^verbatim>\<open>compute_metrics\<close>), and the two comprehensions before the call
  read an attribute of the loader and bind local names only. Without
  \<^verbatim>\<open>evaluate_generated_text\<close> the name \<^verbatim>\<open>model_preds\<close> of the return statement is
  unbound. So no path reaches the return. The calls to the logger and to the experiment
  tracker are left out.
\<close>

definition eval_model ::
  "'r torch \<Rightarrow> 'r trainer \<Rightarrow> filesystem
    \<Rightarrow> ('r trainer \<times> filesystem) \<times> (py_error + ((string \<times> metric) list \<times> string list))" where
  "eval_model env self fs =
    (case eval_loop env self (int (length (test_dl self))) 0 (0, 0, []) (test_dl self) of
       Inl e \<Rightarrow> ((self, fs), Inl e)
     | Inr (eval_loss_sum, nb_eval_steps, ranges) \<Rightarrow>
        (if nb_eval_steps = 0 then ((self, fs), Inl ZeroDivisionError)
         else
          (let eval_loss = eval_loss_sum / real_of_int nb_eval_steps;
               result = [(''eval_loss'', MFloat eval_loss)];
               eval_output_dir = output_dir (args self)
           in case makedirs eval_output_dir fs of
                Inl e \<Rightarrow> ((self, fs), Inl e)
              | Inr fs1 \<Rightarrow>
                 (let output_eval_file = path_join eval_output_dir ''eval_results.txt''
                  in case write_file output_eval_file
                            (concat (result_lines (float_str env) result)) fs1 of
                       Inl e \<Rightarrow> ((self, fs1), Inl e)
                     | Inr fs2 \<Rightarrow>
                        (let self1 = self\<lparr>results := dict_update (results self) result\<rparr>
                         in if evaluate_generated_text (args self)
                            then ((self1, fs2), Inl AttributeError)
                            else ((self1, fs2), Inl UnboundLocalError))))))"

section \<open>Readings of the configuration used in the statements\<close>

text \<open>The parameter names that a custom parameter group lists under \<^verbatim>\<open>"params"\<close>.\<close>

definition group_names :: "pydict \<Rightarrow> string list" where
  "group_names g = (case map_of g ''params'' of Some (VNames ns) \<Rightarrow> ns | _ \<Rightarrow> [])"

text \<open>The parameters whose names are listed in \<open>ns\<close>, in the model's order.\<close>

definition named_in :: "string list \<Rightarrow> (string \<times> nat) list \<Rightarrow> nat list" where
  "named_in ns named = map snd (filter (\<lambda>(n, p). n \<in> set ns) named)"

text \<open>The parameters whose names are not in the set \<open>names\<close>.\<close>

definition unclaimed :: "string set \<Rightarrow> (string \<times> nat) list \<Rightarrow> nat list" where
  "unclaimed names named = map snd (filter (\<lambda>(n, p). n \<notin> names) named)"

section \<open>A configuration for the examples\<close>

text \<open>
  A configuration without custom groups; its warmup ratio is the binary64 number that the
  literal \<^verbatim>\<open>0.1\<close> denotes, \<open>3602879701896397 / 2 ^ 55\<close>.
\<close>

definition base_args :: config where
  "base_args =
    \<lparr>custom_parameter_groups = [], custom_layer_parameters = [],
     train_custom_parameters_only = False, weight_decay = 1 / 100, learning_rate = 1 / 1000,
     adam_epsilon = 1 / 1000000, max_grad_norm = 1, gradient_accumulation_steps = 1,
     epochs = 1, n_gpu = 1, fp16 = False, evaluate_during_training = False,
     fl_algorithm = ''FedProx'', fedprox_mu = 1, warmup_ratio = Finite 3602879701896397 (- 55),
     warmup_steps = 0, model_type = ''t5'', eval_batch_size = 8, output_dir = ''out'',
     evaluate_generated_text = False\<rparr>"

text \<open>
  A model with five parameters, and a configuration with one custom parameter group and
  one custom layer group for it.
\<close>

definition example_named :: "(string \<times> nat) list" where
  "example_named =
    [(''encoder.layer.0.weight'', 0), (''encoder.layer.0.bias'', 1), (''head.weight'', 2),
     (''head.bias'', 3), (''embed.weight'', 4)]"

definition layered_args :: config where
  "layered_args = base_args
    \<lparr>custom_parameter_groups := [[(''params'', VNames [''embed.weight'']), (''lr'', VFloat (1 / 100))]],
     custom_layer_parameters := [[(''layer'', VInt 0), (''lr'', VFloat (1 / 1000))]]\<rparr>"

text \<open>A configuration whose two custom parameter groups list the same parameter name.\<close>

definition duplicate_args :: config where
  "duplicate_args = base_args
    \<lparr>custom_parameter_groups := [[(''params'', VNames [''w''])], [(''params'', VNames [''w''])]]\<rparr>"

text \<open>
  A runtime for the examples: its state is the number of optimizer steps taken, its one
  weight tensor has that number as its entry, and every forward pass yields the loss 1.
\<close>

definition example_env :: "nat torch" where
  "example_env =
    \<lparr>named_parameters = (\<lambda>r. [(''w'', 0)]),
     parameter_values = (\<lambda>r. [[real r]]),
     forward_loss = (\<lambda>cfg r inputs. [1]),
     backward = (\<lambda>cfg r loss. r),
     optimizer_step = (\<lambda>cfg opt sched r. r + 1),
     zero_grad = (\<lambda>r. r),
     format_other = (\<lambda>v. []),
     float_str = (\<lambda>x. ''1.0'')\<rparr>"

definition example_batch :: batch where
  "example_batch = BatchTuple [[[5, 6, 7]], [[8, 0, 0]]]"

definition example_trainer :: "nat trainer" where
  "example_trainer =
    \<lparr>args = base_args, model = 0,
     train_dl = [example_batch, example_batch, example_batch],
     test_dl = [example_batch, example_batch, example_batch],
     test_dataset_len = 21,
     encoder_pad_token_id = 1, decoder_pad_token_id = 0, results = []\<rparr>"

text \<open>The same trainer with two epochs and an optimizer step every second batch.\<close>

definition accumulating_trainer :: "nat trainer" where
  "accumulating_trainer = example_trainer
    \<lparr>args := base_args\<lparr>gradient_accumulation_steps := 2, epochs := 2, fl_algorithm := ''FedOPT''\<rparr>\<rparr>"

text \<open>The example trainer with the configuration that has custom groups.\<close>

definition layered_trainer :: "nat trainer" where
  "layered_trainer = example_trainer\<lparr>args := layered_args\<rparr>"

text \<open>
  A runtime that records what is backpropagated: its state is the list of the loss values
  handed to \<^verbatim>\<open>backward\<close> so far. Its one weight is 2 and every forward pass yields the
  loss 1. The trainer for it makes an optimizer step every second batch.
\<close>

definition recording_env :: "real list torch" where
  "recording_env =
    \<lparr>named_parameters = (\<lambda>r. [(''w'', 0)]),
     parameter_values = (\<lambda>r. [[2]]),
     forward_loss = (\<lambda>cfg r inputs. [1]),
     backward = (\<lambda>cfg r loss. r @ loss),
     optimizer_step = (\<lambda>cfg opt sched r. r),
     zero_grad = (\<lambda>r. r),
     format_other = (\<lambda>v. []),
     float_str = (\<lambda>x. ''1.0'')\<rparr>"

definition recording_trainer :: "real list trainer" where
  "recording_trainer =
    \<lparr>args = base_args\<lparr>gradient_accumulation_steps := 2\<rparr>, model = [],
     train_dl = [example_batch, example_batch], test_dl = [],
     test_dataset_len = 0,
     encoder_pad_token_id = 1, decoder_pad_token_id = 0, results = []\<rparr>"

text \<open>An empty file system, and the example trainer asked for generated-text metrics.\<close>

definition empty_fs :: filesystem where
  "empty_fs = \<lparr>dirs = {}, files = (\<lambda>p. None)\<rparr>"

definition generating_trainer :: "nat trainer" where
  "generating_trainer = example_trainer\<lparr>args := base_args\<lparr>evaluate_generated_text := True\<rparr>\<rparr>"

section \<open>Properties of the input-batch adapter\<close>

lemma mask_pad_length: "length (mask_pad pad t) = length t"
  by (simp add: mask_pad_def)

lemma mask_pad_row_length: "r < length t \<Longrightarrow> length (mask_pad pad t ! r) = length (t ! r)"
  by (simp add: mask_pad_def)

lemma mask_pad_entry:
  "r < length t \<Longrightarrow> c < length (t ! r) \<Longrightarrow>
   mask_pad pad t ! r ! c = (if t ! r ! c = pad then - 100 else t ! r ! c)"
  by (simp add: mask_pad_def)

text \<open>
  Claim C5. In the default branch of the batch adapter (model type other than bart,
  marian and mbart), on a tuple batch with at least two tensors, the returned
  \<^verbatim>\<open>decoder_input_ids\<close> are the raw label tensor \<^verbatim>\<open>batch[1]\<close> unchanged, and the returned
  \<^verbatim>\<open>labels\<close> tensor has the shape of the raw labels, holds \<open>-100\<close> at every position
  where the raw label is the decoder tokenizer's pad id, and the raw label everywhere else.
\<close>

theorem get_inputs_dict_default_labels:
  assumes "mt \<notin> {''bart'', ''marian'', ''mbart''}"
    and "1 < length ts"
  shows "\<exists>inputs labels.
      get_inputs_dict mt enc_pad dec_pad (BatchTuple ts) = Inr inputs
    \<and> map_of inputs ''decoder_input_ids'' = Some (ts ! 1)
    \<and> map_of inputs ''labels'' = Some labels
    \<and> length labels = length (ts ! 1)
    \<and> (\<forall>r < length (ts ! 1). length (labels ! r) = length (ts ! 1 ! r)
         \<and> (\<forall>c < length (ts ! 1 ! r).
               labels ! r ! c = (if ts ! 1 ! r ! c = dec_pad then - 100 else ts ! 1 ! r ! c)))"
proof -
  from assms have "get_inputs_dict mt enc_pad dec_pad (BatchTuple ts)
      = Inr [(''input_ids'', ts ! 0), (''decoder_input_ids'', ts ! 1),
             (''labels'', mask_pad dec_pad (ts ! 1))]"
    by (auto simp add: get_inputs_dict_def)
  then show ?thesis
    by (simp add: mask_pad_length mask_pad_row_length mask_pad_entry)
qed

theorem get_inputs_dict_default_labels_witness:
  "get_inputs_dict ''t5'' 1 0 (BatchTuple [[[5, 6, 7]], [[8, 0, 0]]])
     = Inr [(''input_ids'', [[5, 6, 7]]), (''decoder_input_ids'', [[8, 0, 0]]),
            (''labels'', [[8, - 100, - 100]])]"
proof -
  have a: "''t5'' \<notin> {''bart'', ''marian'', ''mbart''}" by simp
  have b: "1 < length [[[5, 6, 7]], [[8, 0, 0 :: int]]]" by simp
  from get_inputs_dict_default_labels [OF a b, of 1 0]
  show ?thesis by (simp add: get_inputs_dict_def mask_pad_def)
qed

section \<open>Properties of the warmup-step computation\<close>

lemma bit_length_eq: "2 ^ k \<le> n \<Longrightarrow> n < 2 ^ Suc k \<Longrightarrow> bit_length n = Suc k"
proof (induction k arbitrary: n)
  case 0
  then have "n = 1" by simp
  then show ?case by (simp add: bit_length.simps)
next
  case (Suc k)
  have "2 ^ k \<le> n div 2" using Suc.prems by simp
  moreover have "n div 2 < 2 ^ Suc k" using Suc.prems by simp
  ultimately have "bit_length (n div 2) = Suc k" by (rule Suc.IH)
  moreover have "n \<noteq> 0" using Suc.prems by auto
  ultimately show ?case by (subst bit_length.simps) simp
qed

lemma bit_length_numeral:
  "0 < k \<Longrightarrow> 2 ^ (k - 1) \<le> n \<Longrightarrow> n < 2 ^ k \<Longrightarrow> bit_length n = k"
  using bit_length_eq [of "k - 1" n] by simp

text \<open>\<^verbatim>\<open>math.ceil\<close> of a finite float is the least integer not below its value.\<close>

lemma py_ceil_ceiling: "py_ceil (Finite m e) = Inr \<lceil>float_value m e\<rceil>"
proof (cases "0 \<le> e")
  case True
  have "\<lceil>(of_int m :: rat) * 2 ^ nat e\<rceil> = m * 2 ^ nat e"
    by (metis ceiling_of_int of_int_mult of_int_numeral of_int_power)
  with True show ?thesis by (simp add: float_value_def)
next
  case False
  have "\<lceil>(of_int m :: rat) / 2 ^ nat (- e)\<rceil> = - ((- m) div 2 ^ nat (- e))"
    using ceiling_divide_eq_div [of m "2 ^ nat (- e)", where ?'a = rat] by simp
  with False show ?thesis by (simp add: float_value_def)
qed

text \<open>The float product \<^verbatim>\<open>1000 * 0.1\<close> is exactly 100: the rounding drops the excess.\<close>

lemma float_1000_tenth:
  "int_times_float 1000 (Finite 3602879701896397 (- 55)) = Inr (Finite 7036874417766400 (- 46))"
proof -
  have a: "bit_length 1000 = 10" by (rule bit_length_numeral) simp_all
  have b: "bit_length 3602879701896397000 = 62" by (rule bit_length_numeral) simp_all
  have c: "bit_length 7036874417766400 = 53" by (rule bit_length_numeral) simp_all
  show ?thesis
    by (simp add: int_times_float_def float_of_int_def round_double_def round_half_even_def
        Let_def a b c)
qed

lemma build_optimizer_finite:
  assumes "int_times_float tot (warmup_ratio cfg) = Inr (Finite m e)"
  shows "\<exists>cfg' opt sched. build_optimizer cfg ps tot = Inr (cfg', opt, sched)
     \<and> warmup_steps cfg' = (if warmup_steps cfg = 0 then \<lceil>float_value m e\<rceil> else warmup_steps cfg)
     \<and> num_warmup_steps sched = warmup_steps cfg'
     \<and> num_training_steps sched = tot
     \<and> cfg' = cfg\<lparr>warmup_steps := warmup_steps cfg'\<rparr>"
  using assms by (simp add: build_optimizer_def py_ceil_ceiling Let_def del: py_ceil.simps)

text \<open>
  Claim C4. Whenever the float product \<^verbatim>\<open>iteration_in_total * warmup_ratio\<close> is finite,
  \<^verbatim>\<open>build_optimizer\<close> returns, and the warmup-step count it writes to the configuration
  and passes to the scheduler is the ceiling of that product when the configured
  \<^verbatim>\<open>warmup_steps\<close> is zero and the configured \<^verbatim>\<open>warmup_steps\<close> unchanged otherwise. With
  1000 total steps and the warmup ratio \<^verbatim>\<open>0.1\<close> (the binary64 number
  \<open>3602879701896397 / 2 ^ 55\<close>), a configured count of 0 yields 100 and a configured
  count of 50 yields 50.
\<close>

theorem build_optimizer_warmup_steps:
  "(int_times_float tot (warmup_ratio cfg) = Inr (Finite m e) \<longrightarrow>
      (\<exists>cfg' opt sched. build_optimizer cfg ps tot = Inr (cfg', opt, sched)
         \<and> warmup_steps cfg' =
             (if warmup_steps cfg = 0 then \<lceil>float_value m e\<rceil> else warmup_steps cfg)
         \<and> num_warmup_steps sched = warmup_steps cfg'))
   \<and> (warmup_ratio c = Finite 3602879701896397 (- 55) \<longrightarrow>
        (warmup_steps c = 0 \<longrightarrow>
          (\<exists>c' opt sched. build_optimizer c ps 1000 = Inr (c', opt, sched)
             \<and> warmup_steps c' = 100 \<and> num_warmup_steps sched = 100))
      \<and> (warmup_steps c = 50 \<longrightarrow>
          (\<exists>c' opt sched. build_optimizer c ps 1000 = Inr (c', opt, sched)
             \<and> warmup_steps c' = 50 \<and> num_warmup_steps sched = 50)))"
proof (intro conjI impI)
  assume "int_times_float tot (warmup_ratio cfg) = Inr (Finite m e)"
  from build_optimizer_finite [OF this, of ps]
  show "\<exists>cfg' opt sched. build_optimizer cfg ps tot = Inr (cfg', opt, sched)
         \<and> warmup_steps cfg' =
             (if warmup_steps cfg = 0 then \<lceil>float_value m e\<rceil> else warmup_steps cfg)
         \<and> num_warmup_steps sched = warmup_steps cfg'"
    by blast
next
  have v: "\<lceil>float_value 7036874417766400 (- 46)\<rceil> = 100"
    by (simp add: float_value_def)
  assume r: "warmup_ratio c = Finite 3602879701896397 (- 55)"
  then have p: "int_times_float 1000 (warmup_ratio c) = Inr (Finite 7036874417766400 (- 46))"
    by (simp add: float_1000_tenth)
  {
    assume z: "warmup_steps c = 0"
    from build_optimizer_finite [OF p, of ps] z v
    show "\<exists>c' opt sched. build_optimizer c ps 1000 = Inr (c', opt, sched)
             \<and> warmup_steps c' = 100 \<and> num_warmup_steps sched = 100"
      by auto
  }
  {
    assume z: "warmup_steps c = 50"
    from build_optimizer_finite [OF p, of ps] z
    show "\<exists>c' opt sched. build_optimizer c ps 1000 = Inr (c', opt, sched)
             \<and> warmup_steps c' = 50 \<and> num_warmup_steps sched = 50"
      by auto
  }
qed

theorem build_optimizer_warmup_steps_witness:
  "\<exists>c' opt sched. build_optimizer base_args [0, 1] 1000 = Inr (c', opt, sched)
     \<and> warmup_steps c' = 100 \<and> num_warmup_steps sched = 100"
proof -
  have r: "warmup_ratio base_args = Finite 3602879701896397 (- 55)"
    by (simp add: base_args_def)
  have z: "warmup_steps base_args = 0"
    by (simp add: base_args_def)
  from build_optimizer_warmup_steps [of 1000 base_args 7036874417766400 "- 46" "[0, 1]" base_args]
    r z
  show ?thesis by blast
qed

section \<open>Properties of the parameter-group construction\<close>

lemma mset_split:
  "mset (map f (filter P xs)) =
     mset (map f (filter (\<lambda>x. P x \<and> Q x) xs)) + mset (map f (filter (\<lambda>x. P x \<and> \<not> Q x) xs))"
  by (induction xs) auto

lemma group_params_update [simp]: "group_params (AList.update ''params'' (Params ps) d) = ps"
  by (simp add: group_params_def update_conv')

lemma custom_group_step_Inr:
  assumes "custom_group_step named g names = Inr (g', pg, names')"
  shows "g' = AList.delete ''params'' g \<and> group_params pg = named_in (group_names g) named
     \<and> names' = names \<union> set (group_names g)"
  using assms
  by (auto simp: custom_group_step_def dict_pop_def group_names_def named_in_def
      split: option.splits pyval.splits)

lemma custom_step_mset:
  assumes "set ns \<inter> names = {}"
  shows "mset (named_in ns named) + mset (unclaimed (names \<union> set ns) named)
     = mset (unclaimed names named)"
proof -
  have a: "filter (\<lambda>x. (case x of (n, p) \<Rightarrow> n \<notin> names) \<and> (case x of (n, p) \<Rightarrow> n \<in> set ns)) named
      = filter (\<lambda>(n, p). n \<in> set ns) named"
    using assms by (intro filter_cong) auto
  have b: "filter (\<lambda>x. (case x of (n, p) \<Rightarrow> n \<notin> names) \<and> \<not> (case x of (n, p) \<Rightarrow> n \<in> set ns)) named
      = filter (\<lambda>(n, p). n \<notin> names \<union> set ns) named"
    by (intro filter_cong) auto
  show ?thesis
    unfolding named_in_def unclaimed_def
    using mset_split [of snd "\<lambda>(n, p). n \<notin> names" named "\<lambda>(n, p). n \<in> set ns"]
    by (simp add: a b)
qed

lemma custom_groups_loop_Inr:
  assumes "custom_groups_loop named cgs names = Inr (cgs', pgs, names')"
  shows "cgs' = map (AList.delete ''params'') cgs
     \<and> map group_params pgs = map (\<lambda>g. named_in (group_names g) named) cgs
     \<and> names' = names \<union> \<Union> (set ` group_names ` set cgs)"
  using assms
proof (induction cgs arbitrary: names cgs' pgs names')
  case Nil
  then show ?case by simp
next
  case (Cons g gs)
  from Cons.prems obtain g1 pg n1 where s: "custom_group_step named g names = Inr (g1, pg, n1)"
    by (auto split: sum.splits)
  with Cons.prems obtain gs1 pgs1 where r: "custom_groups_loop named gs n1 = Inr (gs1, pgs1, names')"
    and e: "cgs' = g1 # gs1" "pgs = pg # pgs1"
    by (auto split: sum.splits)
  from custom_group_step_Inr [OF s] Cons.IH [OF r] e show ?case by auto
qed

lemma custom_groups_mset:
  assumes "sorted_wrt (\<lambda>a b. set a \<inter> set b = {}) (map group_names cgs)"
    and "\<forall>g \<in> set cgs. set (group_names g) \<inter> names = {}"
  shows "mset (concat (map (\<lambda>g. named_in (group_names g) named) cgs))
       + mset (unclaimed (names \<union> \<Union> (set ` group_names ` set cgs)) named)
     = mset (unclaimed names named)"
  using assms
proof (induction cgs arbitrary: names)
  case Nil
  then show ?case by simp
next
  case (Cons g gs)
  have d: "set (group_names g) \<inter> names = {}" using Cons.prems by simp
  have p2: "\<forall>h \<in> set gs. set (group_names h) \<inter> (names \<union> set (group_names g)) = {}"
    using Cons.prems by auto
  have p1: "sorted_wrt (\<lambda>a b. set a \<inter> set b = {}) (map group_names gs)"
    using Cons.prems by simp
  have ih: "mset (concat (map (\<lambda>g. named_in (group_names g) named) gs))
       + mset (unclaimed ((names \<union> set (group_names g)) \<union> \<Union> (set ` group_names ` set gs)) named)
     = mset (unclaimed (names \<union> set (group_names g)) named)"
    by (rule Cons.IH [OF p1 p2])
  have u: "names \<union> \<Union> (set ` group_names ` set (g # gs))
      = (names \<union> set (group_names g)) \<union> \<Union> (set ` group_names ` set gs)"
    by auto
  show ?case
    using ih custom_step_mset [OF d, of named] by (simp add: Un_assoc add.assoc)
qed


lemma layer_params_loop_closed:
  assumes "distinct (map fst xs)"
  shows "layer_params_loop layer xs (d, nd, names) =
    (d @ map snd (filter (\<lambda>(n, p). n \<notin> names \<and> str_contains layer n \<and> \<not> any_no_decay n) xs),
     nd @ map snd (filter (\<lambda>(n, p). n \<notin> names \<and> str_contains layer n \<and> any_no_decay n) xs),
     names \<union> {n \<in> fst ` set xs. str_contains layer n})"
  using assms
proof (induction xs arbitrary: d nd names)
  case Nil
  then show ?case by simp
next
  case (Cons x xs)
  obtain n p where x: "x = (n, p)" by (cases x)
  have dx: "distinct (map fst xs)" and nx: "n \<notin> fst ` set xs"
    using Cons.prems x by auto
  have f1: "\<And>Q. filter (\<lambda>(m, q). m \<noteq> n \<and> m \<notin> names \<and> Q m) xs
      = filter (\<lambda>(m, q). m \<notin> names \<and> Q m) xs"
    using nx by (intro filter_cong) force+
  show ?case
    unfolding x
    by (auto simp: Cons.IH [OF dx] f1)
qed

lemma layer_group_step_Inr:
  assumes "layer_group_step fmt named g names = Inr (g', pgs, names')"
    and "distinct (map fst named)"
  shows "g' = AList.delete ''layer'' g \<and> length pgs = 2 \<and> names \<subseteq> names'
     \<and> mset (concat (map group_params pgs)) + mset (unclaimed names' named)
         = mset (unclaimed names named)"
proof -
  from assms(1) obtain v where pop: "dict_pop ''layer'' g = Inr (v, g')"
    by (auto simp: layer_group_step_def Let_def split: sum.splits prod.splits)
  define layer where "layer = ''layer.'' @ format_value fmt v @ ''.''"
  let ?C = "\<lambda>n. str_contains layer n"
  let ?d = "map snd (filter (\<lambda>(n, p). n \<notin> names \<and> ?C n \<and> \<not> any_no_decay n) named)"
  let ?nd = "map snd (filter (\<lambda>(n, p). n \<notin> names \<and> ?C n \<and> any_no_decay n) named)"
  have loop: "layer_params_loop layer named ([], [], names)
      = (?d, ?nd, names \<union> {n \<in> fst ` set named. ?C n})"
    using layer_params_loop_closed [OF assms(2), of layer "[]" "[]" names] by simp
  from assms(1) pop loop have
    pgs: "map group_params pgs = [?d, ?nd]" and n': "names' = names \<union> {n \<in> fst ` set named. ?C n}"
    by (auto simp: layer_group_step_def Let_def layer_def)
  have g': "g' = AList.delete ''layer'' g"
    using pop by (auto simp: dict_pop_def split: option.splits)
  have len: "length pgs = 2"
    using arg_cong [OF pgs, of length] by simp
  have u: "unclaimed names' named = map snd (filter (\<lambda>(n, p). n \<notin> names \<and> \<not> ?C n) named)"
    unfolding unclaimed_def n' by (intro arg_cong [of _ _ "map snd"] filter_cong) force+
  have s1: "mset (unclaimed names named)
      = mset (map snd (filter (\<lambda>(n, p). n \<notin> names \<and> ?C n) named))
      + mset (map snd (filter (\<lambda>(n, p). n \<notin> names \<and> \<not> ?C n) named))"
    unfolding unclaimed_def
    using mset_split [of snd "\<lambda>(n, p). n \<notin> names" named "\<lambda>(n, p). ?C n"]
    by (simp add: case_prod_unfold)
  have s2: "mset (map snd (filter (\<lambda>(n, p). n \<notin> names \<and> ?C n) named)) = mset ?d + mset ?nd"
    using mset_split [of snd "\<lambda>(n, p). n \<notin> names \<and> ?C n" named "\<lambda>(n, p). \<not> any_no_decay n"]
    by (simp add: case_prod_unfold conj_assoc)
  have "mset (concat (map group_params pgs)) = mset ?d + mset ?nd"
    by (simp add: pgs)
  with s1 s2 u g' len n' show ?thesis by auto
qed

lemma layer_groups_loop_Inr:
  assumes "layer_groups_loop fmt named lgs names = Inr (lgs', pgs, names')"
    and "distinct (map fst named)"
  shows "lgs' = map (AList.delete ''layer'') lgs \<and> length pgs = 2 * length lgs \<and> names \<subseteq> names'
     \<and> mset (concat (map group_params pgs)) + mset (unclaimed names' named)
         = mset (unclaimed names named)"
  using assms(1)
proof (induction lgs arbitrary: names lgs' pgs names')
  case Nil
  then show ?case by simp
next
  case (Cons g gs)
  from Cons.prems obtain g1 pg n1 where s: "layer_group_step fmt named g names = Inr (g1, pg, n1)"
    by (auto split: sum.splits)
  with Cons.prems obtain gs1 pgs1 where r: "layer_groups_loop fmt named gs n1 = Inr (gs1, pgs1, names')"
    and e: "lgs' = g1 # gs1" "pgs = pg @ pgs1"
    by (auto split: sum.splits)
  from layer_group_step_Inr [OF s assms(2)] Cons.IH [OF r] e show ?case
    by (auto simp: add.assoc)
qed

lemma default_groups_mset:
  "map group_params (default_groups cfg named names)
     = [map snd (filter (\<lambda>(n, p). n \<notin> names \<and> \<not> any_no_decay n) named),
        map snd (filter (\<lambda>(n, p). n \<notin> names \<and> any_no_decay n) named)]
   \<and> mset (concat (map group_params (default_groups cfg named names)))
     = mset (unclaimed names named)"
proof -
  have a: "map group_params (default_groups cfg named names)
     = [map snd (filter (\<lambda>(n, p). n \<notin> names \<and> \<not> any_no_decay n) named),
        map snd (filter (\<lambda>(n, p). n \<notin> names \<and> any_no_decay n) named)]"
    by (simp add: default_groups_def group_params_def)
  have "mset (unclaimed names named)
      = mset (map snd (filter (\<lambda>(n, p). n \<notin> names \<and> \<not> any_no_decay n) named))
      + mset (map snd (filter (\<lambda>(n, p). n \<notin> names \<and> any_no_decay n) named))"
    unfolding unclaimed_def
    using mset_split [of snd "\<lambda>(n, p). n \<notin> names" named "\<lambda>(n, p). \<not> any_no_decay n"]
    by (simp add: case_prod_unfold)
  with a show ?thesis by simp
qed

lemma unclaimed_empty: "unclaimed {} named = map snd named"
  by (simp add: unclaimed_def)

text \<open>
  Claim C1, as the construction has it. Let the construction return for a model whose
  parameter names and parameter objects are distinct, with \<^verbatim>\<open>train_custom_parameters_only\<close>
  false, and let no parameter name be listed by two custom parameter groups. Then every
  model parameter appears exactly once in the constructed groups taken together. The groups
  come in the order: one per custom parameter group, holding the model's parameters that
  the group lists; two per custom layer group; the two catch-all groups; and the layer and
  catch-all groups hold no parameter that a custom parameter group lists.
\<close>

theorem optimizer_grouped_parameters_partition:
  assumes "optimizer_grouped_parameters fmt cfg named = Inr (groups, cfg')"
    and "\<not> train_custom_parameters_only cfg"
    and "distinct (map fst named)" and "distinct (map snd named)"
    and "sorted_wrt (\<lambda>a b. set a \<inter> set b = {}) (map group_names (custom_parameter_groups cfg))"
  shows "mset (concat (map group_params groups)) = mset (map snd named)
     \<and> distinct (concat (map group_params groups))
     \<and> length groups
         = length (custom_parameter_groups cfg) + 2 * length (custom_layer_parameters cfg) + 2
     \<and> map group_params (take (length (custom_parameter_groups cfg)) groups)
          = map (\<lambda>g. named_in (group_names g) named) (custom_parameter_groups cfg)
     \<and> (\<forall>p \<in> set (concat (map group_params (drop (length (custom_parameter_groups cfg)) groups))).
           p \<in> set (unclaimed (\<Union> (set ` group_names ` set (custom_parameter_groups cfg))) named))"
proof -
  let ?cgs = "custom_parameter_groups cfg" and ?lgs = "custom_layer_parameters cfg"
  from assms(1) obtain cgs' pgs1 names1 where
    c: "custom_groups_loop named ?cgs {} = Inr (cgs', pgs1, names1)"
    by (auto simp: optimizer_grouped_parameters_def split: sum.splits)
  with assms(1) obtain lgs' pgs2 names2 where
    l: "layer_groups_loop fmt named ?lgs names1 = Inr (lgs', pgs2, names2)"
    by (auto simp: optimizer_grouped_parameters_def split: sum.splits)
  from assms(1,2) c l have g: "groups = pgs1 @ pgs2 @ default_groups cfg named names2"
    by (simp add: optimizer_grouped_parameters_def)
  note C = custom_groups_loop_Inr [OF c]
  note L = layer_groups_loop_Inr [OF l assms(3)]
  have n1: "names1 = \<Union> (set ` group_names ` set ?cgs)" using C by simp
  have len1: "length pgs1 = length ?cgs"
    using C by (metis length_map)
  have m1: "mset (concat (map group_params pgs1)) + mset (unclaimed names1 named)
      = mset (map snd named)"
    using custom_groups_mset [OF assms(5), of "{}" named] C by (simp add: unclaimed_empty)
  have m2: "mset (concat (map group_params pgs2)) + mset (unclaimed names2 named)
      = mset (unclaimed names1 named)"
    using L by simp
  have m3: "mset (concat (map group_params (default_groups cfg named names2)))
      = mset (unclaimed names2 named)"
    using default_groups_mset by blast
  have total: "mset (concat (map group_params groups)) = mset (map snd named)"
    using m1 m2 m3 by (simp add: g add.assoc)
  have dist: "distinct (concat (map group_params groups))"
    using total assms(4) by (metis mset_eq_imp_distinct_iff)
  have len: "length groups = length ?cgs + 2 * length ?lgs + 2"
    using len1 L by (simp add: g default_groups_def)
  have first: "map group_params (take (length ?cgs) groups)
      = map (\<lambda>g. named_in (group_names g) named) ?cgs"
    using C len1 by (simp add: g)
  have "mset (concat (map group_params (drop (length ?cgs) groups))) = mset (unclaimed names1 named)"
    using m2 m3 len1 by (simp add: g)
  then have rest: "set (concat (map group_params (drop (length ?cgs) groups)))
      = set (unclaimed names1 named)"
    by (rule mset_eq_setD)
  show ?thesis
    using total dist len first rest n1 by blast
qed


lemmas eval_groups = optimizer_grouped_parameters_def custom_group_step_def layer_group_step_def
  dict_pop_def copy_group_def default_groups_def group_params_def any_no_decay_def no_decay_def
  format_value_def str_int_def str_nat.simps Let_def

text \<open>
  Claim C1 as stated fails: the loop over the custom parameter groups does not consult
  \<^verbatim>\<open>custom_parameter_names\<close>, so a parameter that two custom groups list is placed in
  both of them.
\<close>

theorem duplicate_custom_groups_counterexample:
  "\<exists>groups cfg'.
      optimizer_grouped_parameters (\<lambda>v. []) duplicate_args [(''w'', 0)] = Inr (groups, cfg')
    \<and> \<not> train_custom_parameters_only duplicate_args
    \<and> map group_params groups = [[0], [0], [], []]
    \<and> \<not> distinct (concat (map group_params groups))"
  by (simp add: eval_groups duplicate_args_def base_args_def)

lemma layered_groups:
  "\<exists>groups cfg'.
      optimizer_grouped_parameters (\<lambda>v. []) layered_args example_named = Inr (groups, cfg')
    \<and> map group_params groups = [[4], [0], [1], [2], [3]]
    \<and> custom_parameter_groups cfg' = [[(''lr'', VFloat (1 / 100))]]
    \<and> custom_layer_parameters cfg' = [[(''lr'', VFloat (1 / 1000))]]"
  by (simp add: eval_groups layered_args_def example_named_def base_args_def)

theorem optimizer_grouped_parameters_partition_witness:
  "\<exists>groups cfg'.
      optimizer_grouped_parameters (\<lambda>v. []) layered_args example_named = Inr (groups, cfg')
    \<and> mset (concat (map group_params groups)) = mset (map snd example_named)
    \<and> distinct (concat (map group_params groups))
    \<and> length groups = 5"
proof -
  from layered_groups obtain groups cfg' where
    g: "optimizer_grouped_parameters (\<lambda>v. []) layered_args example_named = Inr (groups, cfg')"
    by blast
  have a: "\<not> train_custom_parameters_only layered_args"
    by (simp add: layered_args_def base_args_def)
  have b: "distinct (map fst example_named)" and c: "distinct (map snd example_named)"
    by (simp_all add: example_named_def)
  have d: "sorted_wrt (\<lambda>a b. set a \<inter> set b = {})
      (map group_names (custom_parameter_groups layered_args))"
    by (simp add: layered_args_def base_args_def)
  have e: "length (custom_parameter_groups layered_args)
      + 2 * length (custom_layer_parameters layered_args) + 2 = 5"
    by (simp add: layered_args_def base_args_def)
  from optimizer_grouped_parameters_partition [OF g a b c d] e g
  show ?thesis by auto
qed

section \<open>Properties of the training loop\<close>

lemma div_succ_int:
  fixes i acc :: int
  assumes "0 < acc"
  shows "(i + 1) div acc = i div acc + (if (i + 1) mod acc = 0 then 1 else 0)"
proof (cases "(i + 1) mod acc = 0")
  case True
  then obtain k where k: "i + 1 = acc * k" by (auto simp: mod_eq_0_iff_dvd)
  then have i: "i = acc * (k - 1) + (acc - 1)" by (simp add: algebra_simps)
  have "i div acc = k - 1"
    unfolding i using assms by (simp add: div_pos_pos_trivial)
  moreover have "(i + 1) div acc = k" unfolding k using assms by simp
  ultimately show ?thesis using True by simp
next
  case False
  have m: "0 \<le> i mod acc" "i mod acc < acc" using assms by simp_all
  have "i mod acc + 1 \<noteq> acc"
  proof
    assume "i mod acc + 1 = acc"
    then have "(i + 1) mod acc = 0"
      by (metis mod_add_left_eq mod_self)
    with False show False by simp
  qed
  with m have lt: "i mod acc + 1 < acc" by simp
  have z: "(i mod acc + 1) div acc = 0"
    using lt m by (intro div_pos_pos_trivial) simp_all
  have "(acc * (i div acc) + (i mod acc + 1)) div acc = i div acc + (i mod acc + 1) div acc"
    using assms by (intro div_mult_self4) simp
  moreover have "acc * (i div acc) + (i mod acc + 1) = i + 1"
    by (simp add: add.assoc [symmetric])
  ultimately have "(i + 1) div acc = i div acc" using z by simp
  then show ?thesis using False by simp
qed

lemma train_batch_step:
  assumes "train_batch env self opt sched epoch st i b = Inr st'"
  shows "global_step st' = global_step st
          + (if (i + 1) mod gradient_accumulation_steps (args self) = 0 then 1 else 0)
     \<and> global_model st' = global_model st"
  using assms
  by (auto simp: train_batch_def Let_def split: sum.splits if_splits option.splits)

lemma run_batches_steps:
  assumes "run_batches env self opt sched epoch st i bs = Inr st'"
    and "0 < gradient_accumulation_steps (args self)"
  shows "global_step st' = global_step st
          + ((i + int (length bs)) div gradient_accumulation_steps (args self)
             - i div gradient_accumulation_steps (args self))
     \<and> global_model st' = global_model st"
  using assms(1)
proof (induction bs arbitrary: st i)
  case Nil
  then show ?case by simp
next
  case (Cons b bs)
  from Cons.prems obtain st1 where
    s: "train_batch env self opt sched epoch st i b = Inr st1"
    and r: "run_batches env self opt sched epoch st1 (i + 1) bs = Inr st'"
    by (auto split: sum.splits)
  from train_batch_step [OF s] Cons.IH [OF r] div_succ_int [OF assms(2), of i]
  show ?case by (simp add: ac_simps)
qed

lemma run_epochs_steps:
  assumes "run_epochs env self opt sched st epoch k = Inr st'"
    and "0 < gradient_accumulation_steps (args self)"
  shows "global_step st' = global_step st
          + int k * (int (length (train_dl self)) div gradient_accumulation_steps (args self))
     \<and> global_model st' = global_model st"
  using assms(1)
proof (induction k arbitrary: st epoch)
  case 0
  then show ?case by simp
next
  case (Suc k)
  from Suc.prems obtain st1 where
    s: "run_batches env self opt sched epoch st 0 (train_dl self) = Inr st1"
    and r: "run_epochs env self opt sched st1 (epoch + 1) k = Inr st'"
    by (auto split: sum.splits)
  from run_batches_steps [OF s assms(2)] Suc.IH [OF r]
  show ?case by (simp add: algebra_simps)
qed

lemma optimizer_grouped_parameters_args:
  assumes "optimizer_grouped_parameters fmt cfg named = Inr (groups, cfg')"
  shows "cfg' = cfg\<lparr>custom_parameter_groups := custom_parameter_groups cfg',
                    custom_layer_parameters := custom_layer_parameters cfg'\<rparr>"
  using assms by (auto simp: optimizer_grouped_parameters_def split: sum.splits)

lemma build_optimizer_args:
  assumes "build_optimizer cfg ps tot = Inr (cfg', opt, sched)"
  shows "cfg' = cfg\<lparr>warmup_steps := warmup_steps cfg'\<rparr>"
  using assms by (auto simp: build_optimizer_def Let_def split: sum.splits)


lemma train_model_InrD:
  assumes "train_model env self = Inr r"
  shows "\<exists>groups args1 args2 opt sched st.
      optimizer_grouped_parameters (format_other env) (args self)
          (named_parameters env (model self)) = Inr (groups, args1)
    \<and> gradient_accumulation_steps args1 \<noteq> 0
    \<and> build_optimizer args1 (map snd (named_parameters env (model self)))
          (int (length (train_dl self)) div gradient_accumulation_steps args1 * epochs args1)
        = Inr (args2, opt, sched)
    \<and> \<not> evaluate_during_training args2
    \<and> run_epochs env (self\<lparr>args := args2, model := zero_grad env (model self)\<rparr>) opt sched
          \<lparr>runtime = zero_grad env (model self), global_step = 0, tr_loss = 0,
           global_model = (if fl_algorithm args2 = ''FedProx''
                           then Some (parameter_values env (zero_grad env (model self)))
                           else None),
           loss_log = []\<rparr> 0 (nat (epochs args2)) = Inr st
    \<and> global_step st \<noteq> 0
    \<and> r = \<lparr>returned = (global_step st, tr_loss st / real_of_int (global_step st)),
            self_after = self\<lparr>args := args2, model := runtime st\<rparr>,
            grouped_parameters = groups, built_optimizer = opt, built_scheduler = sched,
            final_state = st\<rparr>"
proof -
  let ?named = "named_parameters env (model self)"
  from assms obtain groups args1 where
    g: "optimizer_grouped_parameters (format_other env) (args self) ?named = Inr (groups, args1)"
    by (auto simp: train_model_def split: sum.splits)
  have nz: "gradient_accumulation_steps args1 \<noteq> 0"
    using assms g by (auto simp: train_model_def)
  let ?tot = "int (length (train_dl self)) div gradient_accumulation_steps args1 * epochs args1"
  from assms g nz obtain args2 opt sched where
    b: "build_optimizer args1 (map snd ?named) ?tot = Inr (args2, opt, sched)"
    by (auto simp: train_model_def Let_def split: sum.splits)
  have ne: "\<not> evaluate_during_training args2"
    using assms g nz b by (auto simp: train_model_def Let_def)
  let ?st0 = "\<lparr>runtime = zero_grad env (model self), global_step = 0, tr_loss = 0,
           global_model = (if fl_algorithm args2 = ''FedProx''
                           then Some (parameter_values env (zero_grad env (model self)))
                           else None),
           loss_log = []\<rparr>"
  let ?self1 = "self\<lparr>args := args2, model := zero_grad env (model self)\<rparr>"
  from assms g nz b ne obtain st where
    e: "run_epochs env ?self1 opt sched ?st0 0 (nat (epochs args2)) = Inr st"
    by (simp add: train_model_def Let_def split: sum.splits)
  have gz: "global_step st \<noteq> 0"
    using assms g nz b ne e by (auto simp: train_model_def Let_def)
  have r: "r = \<lparr>returned = (global_step st, tr_loss st / real_of_int (global_step st)),
            self_after = self\<lparr>args := args2, model := runtime st\<rparr>,
            grouped_parameters = groups, built_optimizer = opt, built_scheduler = sched,
            final_state = st\<rparr>"
    using assms g nz b ne e gz by (simp add: train_model_def Let_def)
  from g nz b ne e gz r show ?thesis by blast
qed

lemma train_model_args:
  assumes "optimizer_grouped_parameters fmt cfg named = Inr (groups, args1)"
    and "build_optimizer args1 ps tot = Inr (args2, opt, sched)"
  shows "args2 = cfg\<lparr>custom_parameter_groups := custom_parameter_groups args1,
                     custom_layer_parameters := custom_layer_parameters args1,
                     warmup_steps := warmup_steps args2\<rparr>"
  using optimizer_grouped_parameters_args [OF assms(1)] build_optimizer_args [OF assms(2)]
  by simp

lemma mult_div_le:
  fixes e n a :: int
  assumes "0 \<le> e" "0 < a"
  shows "e * (n div a) \<le> (e * n) div a"
proof -
  have "a * (n div a) \<le> n"
    using mult_div_mod_eq [of a n] pos_mod_sign [OF assms(2), of n] by linarith
  then have "e * (a * (n div a)) \<le> e * n" using assms(1) by (rule mult_left_mono)
  then have "(e * (n div a)) * a \<le> e * n" by (simp add: ac_simps)
  then have "((e * (n div a)) * a) div a \<le> (e * n) div a" using assms(2) by (rule zdiv_mono1)
  then show ?thesis using assms(2) by simp
qed

text \<open>
  Claim C3, as the loop has it. The batch index restarts at 0 in every epoch, so an
  optimizer step is made at every \<open>N\<close>-th batch of each epoch (\<open>N\<close> the
  gradient-accumulation steps, at least 1): whenever \<^verbatim>\<open>train_model\<close> returns, the returned
  \<^verbatim>\<open>global_step\<close> is the number of epochs times \<open>\<lfloor>batches per epoch / N\<rfloor>\<close>. This is at
  most \<open>\<lfloor>total batches / N\<rfloor>\<close>, and for \<open>N = 1\<close> it is the total number of batches.
\<close>

theorem train_model_global_step:
  assumes "train_model env self = Inr r"
    and "0 < gradient_accumulation_steps (args self)"
  shows "fst (returned r)
        = int (nat (epochs (args self)))
          * (int (length (train_dl self)) div gradient_accumulation_steps (args self))
     \<and> fst (returned r)
        \<le> (int (nat (epochs (args self))) * int (length (train_dl self)))
             div gradient_accumulation_steps (args self)
     \<and> (gradient_accumulation_steps (args self) = 1 \<longrightarrow>
          fst (returned r) = int (nat (epochs (args self))) * int (length (train_dl self)))"
proof -
  from train_model_InrD [OF assms(1)] obtain groups args1 args2 opt sched st where
    g: "optimizer_grouped_parameters (format_other env) (args self)
          (named_parameters env (model self)) = Inr (groups, args1)"
    and b: "build_optimizer args1 (map snd (named_parameters env (model self)))
          (int (length (train_dl self)) div gradient_accumulation_steps args1 * epochs args1)
        = Inr (args2, opt, sched)"
    and e: "run_epochs env (self\<lparr>args := args2, model := zero_grad env (model self)\<rparr>) opt sched
          \<lparr>runtime = zero_grad env (model self), global_step = 0, tr_loss = 0,
           global_model = (if fl_algorithm args2 = ''FedProx''
                           then Some (parameter_values env (zero_grad env (model self)))
                           else None),
           loss_log = []\<rparr> 0 (nat (epochs args2)) = Inr st"
    and r: "r = \<lparr>returned = (global_step st, tr_loss st / real_of_int (global_step st)),
            self_after = self\<lparr>args := args2, model := runtime st\<rparr>,
            grouped_parameters = groups, built_optimizer = opt, built_scheduler = sched,
            final_state = st\<rparr>"
    by blast
  note a2 = train_model_args [OF g b]
  have acc: "gradient_accumulation_steps args2 = gradient_accumulation_steps (args self)"
    and ep: "epochs args2 = epochs (args self)"
    by (subst a2, simp)+
  let ?self1 = "self\<lparr>args := args2, model := zero_grad env (model self)\<rparr>"
  have pos: "0 < gradient_accumulation_steps (args ?self1)"
    using assms(2) acc by simp
  from run_epochs_steps [OF e pos]
  have gs: "global_step st = int (nat (epochs (args self)))
      * (int (length (train_dl self)) div gradient_accumulation_steps (args self))"
    by (simp add: acc ep)
  have le: "int (nat (epochs (args self)))
        * (int (length (train_dl self)) div gradient_accumulation_steps (args self))
      \<le> (int (nat (epochs (args self))) * int (length (train_dl self)))
          div gradient_accumulation_steps (args self)"
    using assms(2) by (intro mult_div_le) simp_all
  show ?thesis
    using gs le by (simp add: r)
qed


lemma l2_norm_power2 [simp]: "(l2_norm v)\<^sup>2 = (\<Sum>x\<leftarrow>v. x\<^sup>2)"
  unfolding l2_norm_def by (intro real_sqrt_pow2 sum_list_nonneg) auto

lemma bit_length_small:
  "bit_length 0 = 0" "bit_length 2 = 2" "bit_length 3 = 2"
  "bit_length 3602879701896397 = 52"
  "bit_length 7205759403792794 = 53" "bit_length 10808639105689191 = 54"
  "bit_length 5404319552844596 = 53"
  by (simp add: bit_length.simps, (rule bit_length_numeral; simp)+)

lemmas eval_train = train_model_def train_batch_def inputs_dict_def get_inputs_dict_def
  mask_pad_def item_def tensor_mean_def fed_prox_reg_def build_optimizer_def
  int_times_float_def float_of_int_def round_double_def round_half_even_def
  new_AdamW_def new_SGD_def optimizer_grouped_parameters_def default_groups_def
  any_no_decay_def no_decay_def Let_def bit_length_small
  example_env_def example_trainer_def example_batch_def base_args_def accumulating_trainer_def

lemma run_epochs_numeral:
  "run_epochs env self opt sched st epoch (numeral k)
     = run_epochs env self opt sched st epoch (Suc (pred_numeral k))"
  by (simp add: numeral_eq_Suc)

lemma accumulating_run:
  "\<exists>r. train_model example_env accumulating_trainer = Inr r \<and> fst (returned r) = 2"
  by (simp add: eval_train run_epochs_numeral)

lemma example_run:
  "\<exists>r. train_model example_env example_trainer = Inr r \<and> fst (returned r) = 3
     \<and> map (\<lambda>(e, i, n, l). l) (loss_log (final_state r)) = [1, 3 / 2, 3]"
  by (simp add: eval_train run_epochs_numeral)


text \<open>
  Claim C3 as stated fails: with three batches per epoch, two epochs and an optimizer step
  every second batch, the third batch of each epoch makes no step, and \<^verbatim>\<open>train_model\<close>
  returns 2 where \<open>\<lfloor>6 / 2\<rfloor> = 3\<close>.
\<close>

theorem per_epoch_steps_counterexample:
  "\<exists>r. train_model example_env accumulating_trainer = Inr r
     \<and> fst (returned r) = 2
     \<and> (epochs (args accumulating_trainer) * int (length (train_dl accumulating_trainer)))
          div gradient_accumulation_steps (args accumulating_trainer) = 3"
proof -
  have "(epochs (args accumulating_trainer) * int (length (train_dl accumulating_trainer)))
          div gradient_accumulation_steps (args accumulating_trainer) = 3"
    by (simp add: accumulating_trainer_def example_trainer_def base_args_def)
  with accumulating_run show ?thesis by blast
qed

theorem train_model_global_step_witness:
  "\<exists>r. train_model example_env example_trainer = Inr r
     \<and> 0 < gradient_accumulation_steps (args example_trainer)
     \<and> fst (returned r) = 3"
proof -
  from example_run obtain r where r: "train_model example_env example_trainer = Inr r"
    by blast
  have p: "0 < gradient_accumulation_steps (args example_trainer)"
    by (simp add: example_trainer_def base_args_def)
  have "int (nat (epochs (args example_trainer)))
      * (int (length (train_dl example_trainer))
         div gradient_accumulation_steps (args example_trainer)) = 3"
    by (simp add: example_trainer_def base_args_def)
  with train_model_global_step [OF r p] r p show ?thesis by auto
qed

section \<open>The configuration after training\<close>

lemma layer_group_step_args:
  assumes "layer_group_step fmt named g names = Inr (g', pgs, names')"
  shows "g' = AList.delete ''layer'' g"
  using assms
  by (auto simp: layer_group_step_def dict_pop_def Let_def split: option.splits prod.splits)

lemma layer_groups_loop_args:
  assumes "layer_groups_loop fmt named lgs names = Inr (lgs', pgs, names')"
  shows "lgs' = map (AList.delete ''layer'') lgs"
  using assms
proof (induction lgs arbitrary: names lgs' pgs names')
  case Nil
  then show ?case by simp
next
  case (Cons g gs)
  from Cons.prems obtain g1 pg n1 where s: "layer_group_step fmt named g names = Inr (g1, pg, n1)"
    by (auto split: sum.splits)
  with Cons.prems obtain gs1 pgs1 where r: "layer_groups_loop fmt named gs n1 = Inr (gs1, pgs1, names')"
    and e: "lgs' = g1 # gs1"
    by (auto split: sum.splits)
  from layer_group_step_args [OF s] Cons.IH [OF r] e show ?case by simp
qed

lemma optimizer_grouped_parameters_pops:
  assumes "optimizer_grouped_parameters fmt cfg named = Inr (groups, cfg')"
  shows "cfg' = cfg\<lparr>custom_parameter_groups :=
                      map (AList.delete ''params'') (custom_parameter_groups cfg),
                    custom_layer_parameters :=
                      map (AList.delete ''layer'') (custom_layer_parameters cfg)\<rparr>"
proof -
  from assms obtain cgs' pgs1 names1 where
    c: "custom_groups_loop named (custom_parameter_groups cfg) {} = Inr (cgs', pgs1, names1)"
    by (auto simp: optimizer_grouped_parameters_def split: sum.splits)
  with assms obtain lgs' pgs2 names2 where
    l: "layer_groups_loop fmt named (custom_layer_parameters cfg) names1 = Inr (lgs', pgs2, names2)"
    by (auto simp: optimizer_grouped_parameters_def split: sum.splits)
  from assms c l have "cfg' = cfg\<lparr>custom_parameter_groups := cgs', custom_layer_parameters := lgs'\<rparr>"
    by (simp add: optimizer_grouped_parameters_def)
  with custom_groups_loop_Inr [OF c] layer_groups_loop_args [OF l] show ?thesis by simp
qed

lemma build_optimizer_keeps_nonzero:
  assumes "build_optimizer cfg ps tot = Inr (cfg', opt, sched)"
    and "warmup_steps cfg \<noteq> 0"
  shows "warmup_steps cfg' = warmup_steps cfg"
  using assms by (auto simp: build_optimizer_def Let_def split: sum.splits)

text \<open>
  Claim C9, as the code has it. When \<^verbatim>\<open>train_model\<close> returns, the configuration is the
  one it was given except for three fields: every custom parameter group has lost its
  \<^verbatim>\<open>"params"\<close> entry, every custom layer group has lost its \<^verbatim>\<open>"layer"\<close> entry (their other
  entries are unchanged), and \<^verbatim>\<open>warmup_steps\<close> has been written by \<^verbatim>\<open>build_optimizer\<close>,
  which keeps a nonzero configured value.
\<close>

theorem train_model_config_frame:
  assumes "train_model env self = Inr r"
  shows "args (self_after r) = (args self)
           \<lparr>custom_parameter_groups :=
              map (AList.delete ''params'') (custom_parameter_groups (args self)),
            custom_layer_parameters :=
              map (AList.delete ''layer'') (custom_layer_parameters (args self)),
            warmup_steps := warmup_steps (args (self_after r))\<rparr>
     \<and> (warmup_steps (args self) \<noteq> 0 \<longrightarrow>
          warmup_steps (args (self_after r)) = warmup_steps (args self))"
proof -
  from train_model_InrD [OF assms] obtain groups args1 args2 opt sched st where
    g: "optimizer_grouped_parameters (format_other env) (args self)
          (named_parameters env (model self)) = Inr (groups, args1)"
    and b: "build_optimizer args1 (map snd (named_parameters env (model self)))
          (int (length (train_dl self)) div gradient_accumulation_steps args1 * epochs args1)
        = Inr (args2, opt, sched)"
    and r: "r = \<lparr>returned = (global_step st, tr_loss st / real_of_int (global_step st)),
            self_after = self\<lparr>args := args2, model := runtime st\<rparr>,
            grouped_parameters = groups, built_optimizer = opt, built_scheduler = sched,
            final_state = st\<rparr>"
    by blast
  note p = optimizer_grouped_parameters_pops [OF g]
  note w = build_optimizer_args [OF b]
  have a: "args (self_after r) = args2" by (simp add: r)
  have 1: "args2 = (args self)
           \<lparr>custom_parameter_groups :=
              map (AList.delete ''params'') (custom_parameter_groups (args self)),
            custom_layer_parameters :=
              map (AList.delete ''layer'') (custom_layer_parameters (args self)),
            warmup_steps := warmup_steps args2\<rparr>"
    by (subst w, subst p, simp)
  have ws1: "warmup_steps args1 = warmup_steps (args self)"
    by (subst p, simp)
  have 2: "warmup_steps (args self) \<noteq> 0 \<longrightarrow> warmup_steps args2 = warmup_steps (args self)"
    using build_optimizer_keeps_nonzero [OF b] ws1 by simp
  from 1 2 show ?thesis unfolding a by blast
qed

lemmas eval_loop_defs = eval_train eval_groups run_epochs_numeral

lemma layered_run:
  "\<exists>r. train_model example_env layered_trainer = Inr r
     \<and> custom_parameter_groups (args layered_trainer)
         = [[(''params'', VNames [''embed.weight'']), (''lr'', VFloat (1 / 100))]]
     \<and> custom_parameter_groups (args (self_after r)) = [[(''lr'', VFloat (1 / 100))]]
     \<and> custom_layer_parameters (args layered_trainer)
         = [[(''layer'', VInt 0), (''lr'', VFloat (1 / 1000))]]
     \<and> custom_layer_parameters (args (self_after r)) = [[(''lr'', VFloat (1 / 1000))]]
     \<and> train_model example_env (self_after r) = Inl KeyError"
  by (simp add: eval_loop_defs layered_trainer_def layered_args_def)

text \<open>
  Claim C9 as stated fails: \<^verbatim>\<open>group.pop("params")\<close> and \<^verbatim>\<open>group.pop("layer")\<close> remove
  the entries from the configuration's own dictionaries, so after \<^verbatim>\<open>train_model\<close> returns
  the custom groups have lost them (and a second call raises KeyError).
\<close>

theorem config_groups_popped_counterexample:
  "\<exists>r. train_model example_env layered_trainer = Inr r
     \<and> custom_parameter_groups (args layered_trainer)
         = [[(''params'', VNames [''embed.weight'']), (''lr'', VFloat (1 / 100))]]
     \<and> custom_parameter_groups (args (self_after r)) = [[(''lr'', VFloat (1 / 100))]]
     \<and> custom_layer_parameters (args layered_trainer)
         = [[(''layer'', VInt 0), (''lr'', VFloat (1 / 1000))]]
     \<and> custom_layer_parameters (args (self_after r)) = [[(''lr'', VFloat (1 / 1000))]]
     \<and> train_model example_env (self_after r) = Inl KeyError"
  by (rule layered_run)

theorem train_model_config_frame_witness:
  "\<exists>r. train_model example_env layered_trainer = Inr r
     \<and> args (self_after r) = layered_args
           \<lparr>custom_parameter_groups := [[(''lr'', VFloat (1 / 100))]],
            custom_layer_parameters := [[(''lr'', VFloat (1 / 1000))]],
            warmup_steps := warmup_steps (args (self_after r))\<rparr>"
proof -
  from layered_run obtain r where
    r: "train_model example_env layered_trainer = Inr r" by blast
  have "args layered_trainer = layered_args"
    by (simp add: layered_trainer_def)
  moreover have "map (AList.delete ''params'') (custom_parameter_groups layered_args)
      = [[(''lr'', VFloat (1 / 100))]]"
    and "map (AList.delete ''layer'') (custom_layer_parameters layered_args)
      = [[(''lr'', VFloat (1 / 1000))]]"
    by (simp_all add: layered_args_def)
  ultimately show ?thesis
    using train_model_config_frame [OF r] r by auto
qed

section \<open>The proximal term and the optimizer that is built\<close>

lemma sum_sq_map2:
  "(\<Sum>x\<leftarrow>map2 (-) p g. x\<^sup>2) = (\<Sum>(a, c)\<leftarrow>zip p g. (a - c)\<^sup>2)"
  by (simp add: o_def case_prod_unfold)

lemma foldl_add_scaled:
  fixes c :: real
  shows "foldl (\<lambda>reg x. reg + c * h x) acc xs = acc + c * sum_list (map h xs)"
  by (induction xs arbitrary: acc) (simp_all add: algebra_simps)

lemma fed_prox_reg_closed:
  "fed_prox_reg mu ps gs = mu / 2 * (\<Sum>(p, g_p)\<leftarrow>zip ps gs. \<Sum>(a, c)\<leftarrow>zip p g_p. (a - c)\<^sup>2)"
proof -
  let ?h = "\<lambda>x. (l2_norm (map2 (-) (fst x) (snd x)))\<^sup>2"
  have f: "(\<lambda>reg (p, g_p). reg + (mu / 2) * (l2_norm (map2 (-) p g_p))\<^sup>2)
      = (\<lambda>reg x. reg + (mu / 2) * ?h x)"
    by (simp only: case_prod_unfold)
  have h: "map ?h (zip ps gs) = map (\<lambda>(p, g_p). \<Sum>(a, c)\<leftarrow>zip p g_p. (a - c)\<^sup>2) (zip ps gs)"
    by (intro map_cong refl) (simp add: o_def case_prod_unfold)
  have "fed_prox_reg mu ps gs = foldl (\<lambda>reg x. reg + (mu / 2) * ?h x) 0 (zip ps gs)"
    unfolding fed_prox_reg_def by (simp only: f)
  also have "\<dots> = 0 + (mu / 2) * sum_list (map ?h (zip ps gs))"
    by (rule foldl_add_scaled)
  finally show ?thesis by (simp only: h add_0)
qed

lemma item_singleton: "item t = Inr x \<Longrightarrow> t = [x]"
  by (auto simp: item_def split: list.splits)

lemma train_batch_InrD:
  assumes "train_batch env self opt sched epoch st i b = Inr st'"
  shows "\<exists>inputs current_loss trained_loss.
      inputs_dict self b = Inr inputs
    \<and> (if fl_algorithm (args self) = ''FedProx''
        then (case global_model st of
                None \<Rightarrow> Inl UnboundLocalError
              | Some g \<Rightarrow> Inr (map (\<lambda>x. x + fed_prox_reg (fedprox_mu (args self))
                                          (parameter_values env (runtime st)) g)
                     (if 1 < n_gpu (args self)
                      then tensor_mean (forward_loss env (args self) (runtime st) inputs)
                      else forward_loss env (args self) (runtime st) inputs)))
        else Inr (if 1 < n_gpu (args self)
                  then tensor_mean (forward_loss env (args self) (runtime st) inputs)
                  else forward_loss env (args self) (runtime st) inputs)) = Inr [current_loss]
    \<and> trained_loss = (if 1 < gradient_accumulation_steps (args self)
                      then current_loss / real_of_int (gradient_accumulation_steps (args self))
                      else current_loss)
    \<and> loss_log st' = loss_log st @ [(epoch, i, int (length (train_dl self)), current_loss)]
    \<and> tr_loss st' = tr_loss st + trained_loss
    \<and> runtime st' = (if (i + 1) mod gradient_accumulation_steps (args self) = 0
                     then optimizer_step env (args self) opt sched
                            (backward env (args self) (runtime st) [trained_loss])
                     else backward env (args self) (runtime st) [trained_loss])"
proof -
  from assms obtain inputs where i: "inputs_dict self b = Inr inputs"
    by (auto simp: train_batch_def Let_def split: sum.splits)
  let ?loss1 = "(if 1 < n_gpu (args self)
                      then tensor_mean (forward_loss env (args self) (runtime st) inputs)
                      else forward_loss env (args self) (runtime st) inputs)"
  let ?loss2 = "(if fl_algorithm (args self) = ''FedProx''
        then (case global_model st of
                None \<Rightarrow> Inl UnboundLocalError
              | Some g \<Rightarrow> Inr (map (\<lambda>x. x + fed_prox_reg (fedprox_mu (args self))
                                          (parameter_values env (runtime st)) g) ?loss1))
        else Inr ?loss1)"
  obtain t where t: "?loss2 = Inr t"
  proof (cases ?loss2)
    case (Inl e)
    have "train_batch env self opt sched epoch st i b = Inl e"
      unfolding train_batch_def by (simp add: i Let_def Inl)
    with assms show ?thesis by simp
  next
    case (Inr t)
    then show ?thesis by (rule that)
  qed
  obtain current_loss where c: "item t = Inr current_loss"
  proof (cases "item t")
    case (Inl e)
    have "train_batch env self opt sched epoch st i b = Inl e"
      unfolding train_batch_def by (simp add: i Let_def t Inl)
    with assms show ?thesis by simp
  next
    case (Inr x)
    then show ?thesis by (rule that)
  qed
  then have t1: "t = [current_loss]" by (rule item_singleton)
  define trained_loss where "trained_loss = (if 1 < gradient_accumulation_steps (args self)
                         then current_loss / real_of_int (gradient_accumulation_steps (args self))
                         else current_loss)"
  have l3: "(if 1 < gradient_accumulation_steps (args self)
             then map (\<lambda>x. x / real_of_int (gradient_accumulation_steps (args self))) t
             else t) = [trained_loss]"
    by (simp add: t1 trained_loss_def)
  have i3: "item [trained_loss] = Inr trained_loss" by (simp add: item_def)
  have tb: "train_batch env self opt sched epoch st i b =
      (if gradient_accumulation_steps (args self) = 0 then Inl ZeroDivisionError
       else Inr (if (i + 1) mod gradient_accumulation_steps (args self) = 0
                 then st\<lparr>runtime := optimizer_step env (args self) opt sched
                                     (backward env (args self) (runtime st) [trained_loss]),
                         tr_loss := tr_loss st + trained_loss,
                         loss_log := loss_log st
                           @ [(epoch, i, int (length (train_dl self)), current_loss)],
                         global_step := global_step st + 1\<rparr>
                 else st\<lparr>runtime := backward env (args self) (runtime st) [trained_loss],
                         tr_loss := tr_loss st + trained_loss,
                         loss_log := loss_log st
                           @ [(epoch, i, int (length (train_dl self)), current_loss)]\<rparr>))"
    unfolding train_batch_def
    by (simp add: i Let_def t c l3 i3)
  from assms have st': "loss_log st' = loss_log st
          @ [(epoch, i, int (length (train_dl self)), current_loss)]
      \<and> tr_loss st' = tr_loss st + trained_loss
      \<and> runtime st' = (if (i + 1) mod gradient_accumulation_steps (args self) = 0
                        then optimizer_step env (args self) opt sched
                               (backward env (args self) (runtime st) [trained_loss])
                        else backward env (args self) (runtime st) [trained_loss])"
    unfolding tb by (auto split: if_splits)
  show ?thesis
    apply (rule exI [of _ inputs])
    apply (rule exI [of _ current_loss])
    apply (rule exI [of _ trained_loss])
    apply (intro conjI)
          apply (rule i)
         apply (rule t [unfolded t1])
        apply (rule trained_loss_def)
       apply (rule st' [THEN conjunct1])
      apply (rule st' [THEN conjunct2, THEN conjunct1])
     apply (rule st' [THEN conjunct2, THEN conjunct2])
    done
qed

lemma train_batch_loss:
  assumes "train_batch env self opt sched epoch st i b = Inr st'"
  shows "\<exists>inputs x current_loss trained_loss.
         inputs_dict self b = Inr inputs
       \<and> (if 1 < n_gpu (args self)
           then tensor_mean (forward_loss env (args self) (runtime st) inputs)
           else forward_loss env (args self) (runtime st) inputs) = [x]
       \<and> loss_log st' = loss_log st @ [(epoch, i, int (length (train_dl self)), current_loss)]
       \<and> (if fl_algorithm (args self) = ''FedProx''
           then \<exists>g. global_model st = Some g
                  \<and> current_loss = x + fedprox_mu (args self) / 2
                      * (\<Sum>(p, g_p)\<leftarrow>zip (parameter_values env (runtime st)) g.
                           \<Sum>(a, c)\<leftarrow>zip p g_p. (a - c)\<^sup>2)
           else current_loss = x)
       \<and> trained_loss = (if 1 < gradient_accumulation_steps (args self)
                         then current_loss / real_of_int (gradient_accumulation_steps (args self))
                         else current_loss)
       \<and> tr_loss st' = tr_loss st + trained_loss
       \<and> runtime st' = (if (i + 1) mod gradient_accumulation_steps (args self) = 0
                        then optimizer_step env (args self) opt sched
                               (backward env (args self) (runtime st) [trained_loss])
                        else backward env (args self) (runtime st) [trained_loss])"
proof -
  from train_batch_InrD [OF assms] obtain inputs current_loss trained_loss where
    i: "inputs_dict self b = Inr inputs"
    and t: "(if fl_algorithm (args self) = ''FedProx''
        then (case global_model st of
                None \<Rightarrow> Inl UnboundLocalError
              | Some g \<Rightarrow> Inr (map (\<lambda>x. x + fed_prox_reg (fedprox_mu (args self))
                                          (parameter_values env (runtime st)) g)
                     (if 1 < n_gpu (args self)
                      then tensor_mean (forward_loss env (args self) (runtime st) inputs)
                      else forward_loss env (args self) (runtime st) inputs)))
        else Inr (if 1 < n_gpu (args self)
                  then tensor_mean (forward_loss env (args self) (runtime st) inputs)
                  else forward_loss env (args self) (runtime st) inputs)) = Inr [current_loss]"
    and r: "trained_loss = (if 1 < gradient_accumulation_steps (args self)
                      then current_loss / real_of_int (gradient_accumulation_steps (args self))
                      else current_loss)
    \<and> loss_log st' = loss_log st @ [(epoch, i, int (length (train_dl self)), current_loss)]
    \<and> tr_loss st' = tr_loss st + trained_loss
    \<and> runtime st' = (if (i + 1) mod gradient_accumulation_steps (args self) = 0
                     then optimizer_step env (args self) opt sched
                            (backward env (args self) (runtime st) [trained_loss])
                     else backward env (args self) (runtime st) [trained_loss])"
    by blast
  define loss1 where "loss1 = (if 1 < n_gpu (args self)
                      then tensor_mean (forward_loss env (args self) (runtime st) inputs)
                      else forward_loss env (args self) (runtime st) inputs)"
  have p: "\<exists>x. loss1 = [x]
       \<and> (if fl_algorithm (args self) = ''FedProx''
           then \<exists>g. global_model st = Some g
                  \<and> current_loss = x + fedprox_mu (args self) / 2
                      * (\<Sum>(p, g_p)\<leftarrow>zip (parameter_values env (runtime st)) g.
                           \<Sum>(a, c)\<leftarrow>zip p g_p. (a - c)\<^sup>2)
           else current_loss = x)"
  proof (cases "fl_algorithm (args self) = ''FedProx''")
    case True
    with t obtain g where g: "global_model st = Some g"
      and m: "map (\<lambda>x. x + fed_prox_reg (fedprox_mu (args self))
                              (parameter_values env (runtime st)) g) loss1 = [current_loss]"
      unfolding loss1_def [symmetric] by (auto split: option.splits)
    from m obtain x where "loss1 = [x]"
      and "current_loss = x + fed_prox_reg (fedprox_mu (args self))
                              (parameter_values env (runtime st)) g"
      by auto
    with True g show ?thesis
      unfolding fed_prox_reg_closed by auto
  next
    case False
    with t have "loss1 = [current_loss]" unfolding loss1_def [symmetric] by simp
    with False show ?thesis by simp
  qed
  then obtain x where x: "loss1 = [x]"
    and f: "(if fl_algorithm (args self) = ''FedProx''
           then \<exists>g. global_model st = Some g
                  \<and> current_loss = x + fedprox_mu (args self) / 2
                      * (\<Sum>(p, g_p)\<leftarrow>zip (parameter_values env (runtime st)) g.
                           \<Sum>(a, c)\<leftarrow>zip p g_p. (a - c)\<^sup>2)
           else current_loss = x)"
    by blast
  show ?thesis
    apply (rule exI [of _ inputs])
    apply (rule exI [of _ x])
    apply (rule exI [of _ current_loss])
    apply (rule exI [of _ trained_loss])
    apply (intro conjI)
          apply (rule i)
         apply (rule x [unfolded loss1_def])
        apply (rule r [THEN conjunct2, THEN conjunct1])
       apply (rule f)
      apply (rule r [THEN conjunct1])
     apply (rule r [THEN conjunct2, THEN conjunct2, THEN conjunct1])
    apply (rule r [THEN conjunct2, THEN conjunct2, THEN conjunct2])
    done
qed


lemma run_batches_snapshot:
  assumes "run_batches env self opt sched epoch st i bs = Inr st'"
  shows "global_model st' = global_model st"
  using assms
proof (induction bs arbitrary: st i)
  case Nil
  then show ?case by simp
next
  case (Cons b bs)
  from Cons.prems obtain st1 where
    s: "train_batch env self opt sched epoch st i b = Inr st1"
    and r: "run_batches env self opt sched epoch st1 (i + 1) bs = Inr st'"
    by (auto split: sum.splits)
  from train_batch_step [OF s] Cons.IH [OF r] show ?case by simp
qed

lemma run_epochs_snapshot:
  assumes "run_epochs env self opt sched st epoch k = Inr st'"
  shows "global_model st' = global_model st"
  using assms
proof (induction k arbitrary: st epoch)
  case 0
  then show ?case by simp
next
  case (Suc k)
  from Suc.prems obtain st1 where
    s: "run_batches env self opt sched epoch st 0 (train_dl self) = Inr st1"
    and r: "run_epochs env self opt sched st1 (epoch + 1) k = Inr st'"
    by (auto split: sum.splits)
  from run_batches_snapshot [OF s] Suc.IH [OF r] show ?case by simp
qed

lemma train_model_snapshot:
  assumes "train_model env self = Inr r"
  shows "global_model (final_state r)
     = (if fl_algorithm (args self) = ''FedProx''
        then Some (parameter_values env (zero_grad env (model self))) else None)"
proof -
  from train_model_InrD [OF assms] obtain groups args1 args2 opt sched st where
    g: "optimizer_grouped_parameters (format_other env) (args self)
          (named_parameters env (model self)) = Inr (groups, args1)"
    and nz: "gradient_accumulation_steps args1 \<noteq> 0"
    and b: "build_optimizer args1 (map snd (named_parameters env (model self)))
          (int (length (train_dl self)) div gradient_accumulation_steps args1 * epochs args1)
        = Inr (args2, opt, sched)"
    and e: "run_epochs env (self\<lparr>args := args2, model := zero_grad env (model self)\<rparr>) opt sched
          \<lparr>runtime = zero_grad env (model self), global_step = 0, tr_loss = 0,
           global_model = (if fl_algorithm args2 = ''FedProx''
                           then Some (parameter_values env (zero_grad env (model self)))
                           else None),
           loss_log = []\<rparr> 0 (nat (epochs args2)) = Inr st"
    and r: "r = \<lparr>returned = (global_step st, tr_loss st / real_of_int (global_step st)),
            self_after = self\<lparr>args := args2, model := runtime st\<rparr>,
            grouped_parameters = groups, built_optimizer = opt, built_scheduler = sched,
            final_state = st\<rparr>"
    by blast
  have fl: "fl_algorithm args2 = fl_algorithm (args self)"
    by (subst train_model_args [OF g b]) simp
  have "global_model st = (if fl_algorithm args2 = ''FedProx''
        then Some (parameter_values env (zero_grad env (model self))) else None)"
    using run_epochs_snapshot [OF e] by simp
  then show ?thesis by (simp add: r fl)
qed


text \<open>
  Claim C6, with tensor arithmetic over the real numbers. For every batch of the training
  loop that completes, with \<open>x\<close> the model's loss (the mean over devices when there are
  several): exactly when the federated algorithm is \<^verbatim>\<open>"FedProx"\<close> the loss of the batch is
  \<open>x\<close> plus \<open>mu / 2\<close> times the sum over the parameters of the squared distance between
  the parameter and the snapshot's parameter, and for any other algorithm it is \<open>x\<close>. This
  loss is the one that is logged, and, divided by the number of accumulation steps when
  that is more than one, it is the tensor that \<^verbatim>\<open>backward\<close> is called on (so the one the
  optimizer step follows) and the value added to the running training loss. The batch
  leaves the snapshot \<^verbatim>\<open>global_model\<close> as it is, the epochs do not change it, and when
  \<^verbatim>\<open>train_model\<close> returns the snapshot is still the copy of the parameters taken before the
  first epoch (under FedProx; none is taken otherwise).
\<close>

theorem fedprox_proximal_term:
  "(train_batch env self opt sched epoch st i b = Inr st' \<longrightarrow>
      global_model st' = global_model st
    \<and> (\<exists>inputs x current_loss trained_loss.
         inputs_dict self b = Inr inputs
       \<and> (if 1 < n_gpu (args self)
           then tensor_mean (forward_loss env (args self) (runtime st) inputs)
           else forward_loss env (args self) (runtime st) inputs) = [x]
       \<and> loss_log st' = loss_log st @ [(epoch, i, int (length (train_dl self)), current_loss)]
       \<and> (if fl_algorithm (args self) = ''FedProx''
           then \<exists>g. global_model st = Some g
                  \<and> current_loss = x + fedprox_mu (args self) / 2
                      * (\<Sum>(p, g_p)\<leftarrow>zip (parameter_values env (runtime st)) g.
                           \<Sum>(a, c)\<leftarrow>zip p g_p. (a - c)\<^sup>2)
           else current_loss = x)
       \<and> trained_loss = (if 1 < gradient_accumulation_steps (args self)
                         then current_loss / real_of_int (gradient_accumulation_steps (args self))
                         else current_loss)
       \<and> tr_loss st' = tr_loss st + trained_loss
       \<and> runtime st' = (if (i + 1) mod gradient_accumulation_steps (args self) = 0
                        then optimizer_step env (args self) opt sched
                               (backward env (args self) (runtime st) [trained_loss])
                        else backward env (args self) (runtime st) [trained_loss])))
   \<and> (run_epochs env self opt sched st0 ep k = Inr st1 \<longrightarrow> global_model st1 = global_model st0)
   \<and> (train_model env tr = Inr r \<longrightarrow>
        global_model (final_state r)
          = (if fl_algorithm (args tr) = ''FedProx''
             then Some (parameter_values env (zero_grad env (model tr))) else None))"
  using train_batch_step [of env self opt sched epoch st i b st']
    train_batch_loss [of env self opt sched epoch st i b st']
    run_epochs_snapshot [of env self opt sched st0 ep k st1]
    train_model_snapshot [of env tr r]
  by blast

lemma recording_batch_run:
  "train_batch recording_env recording_trainer (new_SGD [0] (1 / 1000))
      \<lparr>num_warmup_steps = 1, num_training_steps = 1\<rparr> 0
      \<lparr>runtime = [], global_step = 0, tr_loss = 0, global_model = Some [[0]],
       loss_log = []\<rparr> 1 example_batch
   = Inr \<lparr>runtime = [3 / 2], global_step = 1, tr_loss = 3 / 2, global_model = Some [[0]],
          loss_log = [(0, 1, 2, 3)]\<rparr>"
  by (simp add: train_batch_def inputs_dict_def get_inputs_dict_def mask_pad_def item_def
      fed_prox_reg_def l2_norm_def tensor_mean_def Let_def recording_env_def
      recording_trainer_def example_batch_def base_args_def)

theorem fedprox_proximal_term_witness:
  "(\<exists>st'. train_batch recording_env recording_trainer (new_SGD [0] (1 / 1000))
        \<lparr>num_warmup_steps = 1, num_training_steps = 1\<rparr> 0
        \<lparr>runtime = [], global_step = 0, tr_loss = 0, global_model = Some [[0]],
         loss_log = []\<rparr> 1 example_batch = Inr st'
     \<and> global_model st' = Some [[0]]
     \<and> loss_log st' = [(0, 1, 2, 1 + 1 / 2 * (2 - 0)\<^sup>2)]
     \<and> tr_loss st' = (1 + 1 / 2 * (2 - 0)\<^sup>2) / 2
     \<and> runtime st' = backward recording_env (args recording_trainer) []
                        [(1 + 1 / 2 * (2 - 0)\<^sup>2) / 2])
   \<and> (\<exists>r. train_model example_env example_trainer = Inr r
        \<and> global_model (final_state r) = Some [[0]]
        \<and> map (\<lambda>(e, i, n, l). l) (loss_log (final_state r)) = [1, 3 / 2, 3])"
proof -
  have a: "\<exists>st'. train_batch recording_env recording_trainer (new_SGD [0] (1 / 1000))
        \<lparr>num_warmup_steps = 1, num_training_steps = 1\<rparr> 0
        \<lparr>runtime = [], global_step = 0, tr_loss = 0, global_model = Some [[0]],
         loss_log = []\<rparr> 1 example_batch = Inr st'
     \<and> global_model st' = Some [[0]]
     \<and> loss_log st' = [(0, 1, 2, 1 + 1 / 2 * (2 - 0)\<^sup>2)]
     \<and> tr_loss st' = (1 + 1 / 2 * (2 - 0)\<^sup>2) / 2
     \<and> runtime st' = backward recording_env (args recording_trainer) []
                        [(1 + 1 / 2 * (2 - 0)\<^sup>2) / 2]"
    using fedprox_proximal_term [of recording_env recording_trainer "new_SGD [0] (1 / 1000)"
        "\<lparr>num_warmup_steps = 1, num_training_steps = 1\<rparr>" 0
        "\<lparr>runtime = [], global_step = 0, tr_loss = 0, global_model = Some [[0]],
          loss_log = []\<rparr>" 1 example_batch
        "\<lparr>runtime = [3 / 2], global_step = 1, tr_loss = 3 / 2, global_model = Some [[0]],
          loss_log = [(0, 1, 2, 3)]\<rparr>"]
      recording_batch_run
    by (simp add: recording_trainer_def base_args_def recording_env_def)
  from example_run obtain r where r: "train_model example_env example_trainer = Inr r"
    and l: "map (\<lambda>(e, i, n, l). l) (loss_log (final_state r)) = [1, 3 / 2, 3]"
    by (elim exE conjE)
  from fedprox_proximal_term [where env = example_env and tr = example_trainer and r = r] r
  have g: "global_model (final_state r) = Some [[0]]"
    by (simp add: example_trainer_def base_args_def example_env_def)
  have b: "\<exists>r. train_model example_env example_trainer = Inr r
        \<and> global_model (final_state r) = Some [[0]]
        \<and> map (\<lambda>(e, i, n, l). l) (loss_log (final_state r)) = [1, 3 / 2, 3]"
    by (rule exI [of _ r], intro conjI, rule r, rule g, rule l)
  from a b show ?thesis by (rule conjI)
qed

lemma build_optimizer_single_group:
  assumes "build_optimizer cfg ps tot = Inr (cfg', opt, sched)"
  shows "map group_params (param_groups opt) = [ps]
     \<and> (\<forall>g \<in> set (param_groups opt). map_of g ''weight_decay'' = Some (Conf (VFloat 0)))"
  using assms
  by (auto simp: build_optimizer_def Let_def new_AdamW_def new_SGD_def group_params_def
      split: sum.splits if_splits)

text \<open>
  Claim C2 at a concrete trainer (one parameter, weight decay 0.01, no custom groups):
  the partition step builds the decay group with weight decay 0.01 and the empty no-decay
  group, but \<^verbatim>\<open>build_optimizer\<close> is given \<^verbatim>\<open>model.parameters()\<close>, not these groups, and the
  optimizer it returns has one group with the library's default weight decay.
\<close>

theorem optimizer_ignores_grouped_parameters:
  "\<exists>r. train_model example_env example_trainer = Inr r
     \<and> grouped_parameters r
         = [[(''params'', Params [0]), (''weight_decay'', Conf (VFloat (1 / 100)))],
            [(''params'', Params []), (''weight_decay'', Conf (VFloat 0))]]
     \<and> param_groups (built_optimizer r)
         = [[(''params'', Params [0]), (''lr'', Conf (VFloat (1 / 1000))),
             (''weight_decay'', Conf (VFloat 0))]]
     \<and> num_warmup_steps (built_scheduler r) = 1
     \<and> num_training_steps (built_scheduler r) = 3"
  by (simp add: eval_train run_epochs_numeral)

section \<open>Properties of the evaluation routine\<close>

lemma eval_loop_count:
  assumes "eval_loop env self n i (l, nb, rs) bs = Inr (l', nb', rs')"
  shows "nb' = nb + int (length bs)"
  using assms
proof (induction bs arbitrary: i l nb rs)
  case Nil
  then show ?case by simp
next
  case (Cons b bs)
  from Cons.prems obtain inputs t where
    "eval_loop env self n (i + 1)
       (l + t, nb + 1,
        rs @ [(i, batch_range (eval_batch_size (args self)) n (test_dataset_len self) i)]) bs
     = Inr (l', nb', rs')"
    by (auto split: sum.splits)
  from Cons.IH [OF this] show ?case by simp
qed

lemma map_of_dict_update:
  "map_of (dict_update d new) = map_of d ++ map_of (rev new)"
proof (induction new arbitrary: d)
  case Nil
  then show ?case by (simp add: dict_update_def)
next
  case (Cons x xs)
  obtain k v where x: "x = (k, v)" by (cases x)
  have "dict_update d (x # xs) = dict_update (AList.update k v d) xs"
    by (simp add: dict_update_def x)
  then have "map_of (dict_update d (x # xs)) = map_of (AList.update k v d) ++ map_of (rev xs)"
    by (simp add: Cons.IH)
  also have "\<dots> = map_of d ++ ([k \<mapsto> v] ++ map_of (rev xs))"
    by (simp add: update_conv' map_add_upd_left [symmetric] del: map_add_upd_left)
  finally show ?case by (simp add: x map_of_append)
qed

lemma result_lines_single:
  "concat (result_lines fstr [(k, v)]) = k @ '' = '' @ metric_str fstr v @ [CHR 0x0A]"
  by (simp add: result_lines_def)

lemma eval_model_completed:
  assumes "eval_loop env self (int (length (test_dl self))) 0 (0, 0, []) (test_dl self)
      = Inr (loss_sum, nb, ranges)"
    and "test_dl self \<noteq> []"
    and "makedirs (output_dir (args self)) fs = Inr fs1"
    and "path_join (output_dir (args self)) ''eval_results.txt'' \<notin> dirs fs1"
  shows "nb = int (length (test_dl self))"
    and "eval_model env self fs =
      ((self\<lparr>results :=
           dict_update (results self) [(''eval_loss'', MFloat (loss_sum / real_of_int nb))]\<rparr>,
        fs\<lparr>dirs := insert (output_dir (args self)) (dirs fs),
           files := (files fs)(path_join (output_dir (args self)) ''eval_results.txt'' \<mapsto>
                      ''eval_loss = '' @ float_str env (loss_sum / real_of_int nb) @ [CHR 0x0A])\<rparr>),
       Inl (if evaluate_generated_text (args self) then AttributeError else UnboundLocalError))"
proof -
  show nb: "nb = int (length (test_dl self))"
    using eval_loop_count [OF assms(1)] by simp
  then have nz: "nb \<noteq> 0" using assms(2) by simp
  have fs1: "fs1 = fs\<lparr>dirs := insert (output_dir (args self)) (dirs fs)\<rparr>"
    using assms(3) by (auto simp: makedirs_def split: if_splits)
  have w: "write_file (path_join (output_dir (args self)) ''eval_results.txt'') c fs1
      = Inr (fs1\<lparr>files := (files fs1)(path_join (output_dir (args self)) ''eval_results.txt'' \<mapsto> c)\<rparr>)"
    for c
    using assms(4) by (simp add: write_file_def)
  show "eval_model env self fs =
      ((self\<lparr>results :=
           dict_update (results self) [(''eval_loss'', MFloat (loss_sum / real_of_int nb))]\<rparr>,
        fs\<lparr>dirs := insert (output_dir (args self)) (dirs fs),
           files := (files fs)(path_join (output_dir (args self)) ''eval_results.txt'' \<mapsto>
                      ''eval_loss = '' @ float_str env (loss_sum / real_of_int nb) @ [CHR 0x0A])\<rparr>),
       Inl (if evaluate_generated_text (args self) then AttributeError else UnboundLocalError))"
    unfolding eval_model_def
    by (simp add: assms(1,3) nz w [unfolded fs1] Let_def result_lines_single metric_str_def
        fs1)
qed

lemma eval_model_no_return:
  "\<exists>e. snd (eval_model env self fs) = Inl e"
  by (auto simp: eval_model_def Let_def split: sum.splits prod.splits)

lemmas eval_eval = eval_model_def eval_inputs_def makedirs_def path_join_def write_file_def
  dict_update_def result_lines_def metric_str_def batch_range_def inputs_dict_def
  get_inputs_dict_def mask_pad_def item_def Let_def example_env_def example_trainer_def
  example_batch_def base_args_def generating_trainer_def empty_fs_def

lemma example_eval_loop:
  "eval_loop example_env tr 3 0 (0, 0, [])
      [example_batch, example_batch, example_batch]
    = (if model_type (args tr) \<in> {''bart'', ''marian'', ''mbart''} then Inl TypeError
       else Inr (3, 3, [(0, batch_range (eval_batch_size (args tr)) 3 (test_dataset_len tr) 0),
                        (1, batch_range (eval_batch_size (args tr)) 3 (test_dataset_len tr) 1),
                        (2, batch_range (eval_batch_size (args tr)) 3 (test_dataset_len tr) 2)]))"
  by (simp add: eval_inputs_def inputs_dict_def get_inputs_dict_def item_def example_env_def
      example_batch_def Let_def)

lemma generating_eval:
  "eval_model example_env generating_trainer empty_fs =
     ((generating_trainer\<lparr>results := [(''eval_loss'', MFloat 1)]\<rparr>,
       \<lparr>dirs = {''out''},
        files = (\<lambda>p. None)(''out/eval_results.txt'' \<mapsto> ''eval_loss = 1.0'' @ [CHR 0x0A])\<rparr>),
      Inl AttributeError)"
  by (simp add: eval_eval)

lemma empty_loader_eval:
  "eval_model example_env (example_trainer\<lparr>test_dl := []\<rparr>) empty_fs
     = ((example_trainer\<lparr>test_dl := []\<rparr>, empty_fs), Inl ZeroDivisionError)"
  by (simp add: eval_model_def)

text \<open>
  Claim C8, as the code has it. When the loss loop completes over at least one batch and
  the output directory and the file can be written, \<^verbatim>\<open>eval_model\<close> adds the output
  directory to the directories (it may be there already), and the file
  \<^verbatim>\<open>eval_results.txt\<close> in it holds, whatever it held before, the lines of the computed
  result in the ascending order of its keys: the one line \<^verbatim>\<open>eval_loss = value\<close> for the
  mean loss, the only metric that the code computes. The cumulative results are the old
  ones overridden by it, so a value that an earlier call stored under the same key is
  replaced and the other keys are kept. This holds with and without
  \<^verbatim>\<open>evaluate_generated_text\<close>; the exception that ends the call comes after these effects.
\<close>

theorem eval_model_persists_results:
  assumes "eval_loop env self (int (length (test_dl self))) 0 (0, 0, []) (test_dl self)
      = Inr (loss_sum, nb, ranges)"
    and "test_dl self \<noteq> []"
    and "makedirs (output_dir (args self)) fs = Inr fs1"
    and "path_join (output_dir (args self)) ''eval_results.txt'' \<notin> dirs fs1"
    and "eval_model env self fs = ((self', fs'), out)"
  shows "dirs fs' = insert (output_dir (args self)) (dirs fs)
     \<and> files fs' = (files fs)(path_join (output_dir (args self)) ''eval_results.txt'' \<mapsto>
          concat (result_lines (float_str env)
            [(''eval_loss'', MFloat (loss_sum / real_of_int (int (length (test_dl self)))))]))
     \<and> result_lines (float_str env)
            [(''eval_loss'', MFloat (loss_sum / real_of_int (int (length (test_dl self)))))]
         = [''eval_loss = ''
              @ float_str env (loss_sum / real_of_int (int (length (test_dl self)))) @ [CHR 0x0A]]
     \<and> map_of (results self')
         = map_of (results self)
           ++ [''eval_loss'' \<mapsto> MFloat (loss_sum / real_of_int (int (length (test_dl self))))]
     \<and> args self' = args self \<and> model self' = model self"
proof -
  note c = eval_model_completed [OF assms(1-4)]
  from assms(5) c(2) have
    s: "self' = self\<lparr>results :=
           dict_update (results self) [(''eval_loss'', MFloat (loss_sum / real_of_int nb))]\<rparr>"
    and f: "fs' = fs\<lparr>dirs := insert (output_dir (args self)) (dirs fs),
           files := (files fs)(path_join (output_dir (args self)) ''eval_results.txt'' \<mapsto>
                      ''eval_loss = '' @ float_str env (loss_sum / real_of_int nb) @ [CHR 0x0A])\<rparr>"
    by simp_all
  have m: "map_of (results self')
         = map_of (results self) ++ [''eval_loss'' \<mapsto> MFloat (loss_sum / real_of_int nb)]"
    unfolding s by (simp add: map_of_dict_update)
  have l: "result_lines (float_str env) [(''eval_loss'', MFloat (loss_sum / real_of_int nb))]
      = [''eval_loss = '' @ float_str env (loss_sum / real_of_int nb) @ [CHR 0x0A]]"
    by (simp add: result_lines_def metric_str_def)
  have a: "args self' = args self \<and> model self' = model self"
    unfolding s by simp
  show ?thesis
    using f m l a unfolding c(1) by simp
qed

text \<open>
  Claim C8 as stated fails for a call on an empty test loader: the division of the loss by
  the number of batches raises before the directory is made and before anything is
  written or merged.
\<close>

theorem eval_results_file_counterexample:
  "eval_model example_env (example_trainer\<lparr>test_dl := []\<rparr>) empty_fs
     = ((example_trainer\<lparr>test_dl := []\<rparr>, empty_fs), Inl ZeroDivisionError)
   \<and> output_dir (args (example_trainer\<lparr>test_dl := []\<rparr>)) = ''out''
   \<and> ''out'' \<notin> dirs empty_fs
   \<and> files empty_fs ''out/eval_results.txt'' = None
   \<and> results (example_trainer\<lparr>test_dl := []\<rparr>) = []"
  using empty_loader_eval by (simp add: empty_fs_def example_trainer_def base_args_def)

text \<open>
  A second call of an evaluation: the directory exists, the file holds the line of an
  earlier call, and the results hold an earlier loss and another key.
\<close>

theorem eval_model_persists_results_witness:
  "\<exists>self' fs' out.
     eval_model example_env
       (generating_trainer\<lparr>results := [(''eval_loss'', MFloat 7), (''rouge'', MFloat 2)]\<rparr>)
       \<lparr>dirs = {''out''},
        files = (\<lambda>p. None)(''out/eval_results.txt'' \<mapsto> ''eval_loss = 7.0'' @ [CHR 0x0A])\<rparr>
       = ((self', fs'), out)
     \<and> dirs fs' = {''out''}
     \<and> files fs' ''out/eval_results.txt'' = Some (''eval_loss = 1.0'' @ [CHR 0x0A])
     \<and> map_of (results self') ''eval_loss'' = Some (MFloat 1)
     \<and> map_of (results self') ''rouge'' = Some (MFloat 2)"
proof -
  let ?tr = "generating_trainer\<lparr>results := [(''eval_loss'', MFloat 7), (''rouge'', MFloat 2)]\<rparr>"
  let ?fs = "\<lparr>dirs = {''out''},
        files = (\<lambda>p. None)(''out/eval_results.txt'' \<mapsto> ''eval_loss = 7.0'' @ [CHR 0x0A])\<rparr>"
  have t: "test_dl ?tr = [example_batch, example_batch, example_batch]"
    by (simp add: generating_trainer_def example_trainer_def)
  obtain ranges where l: "eval_loop example_env ?tr
      (int (length (test_dl ?tr))) 0 (0, 0, []) (test_dl ?tr) = Inr (3, 3, ranges)"
    unfolding t using example_eval_loop [of ?tr]
    by (simp add: generating_trainer_def example_trainer_def base_args_def)
  have n: "test_dl ?tr \<noteq> []" by (simp add: t)
  have m: "makedirs (output_dir (args ?tr)) ?fs = Inr ?fs"
    by (simp add: makedirs_def generating_trainer_def example_trainer_def base_args_def)
  have d: "path_join (output_dir (args ?tr)) ''eval_results.txt'' \<notin> dirs ?fs"
    by (simp add: path_join_def generating_trainer_def example_trainer_def base_args_def)
  obtain self' fs' out where e: "eval_model example_env ?tr ?fs = ((self', fs'), out)"
    by (metis prod.exhaust)
  from eval_model_persists_results [OF l n m d e] e
  show ?thesis
    by (auto simp: t path_join_def generating_trainer_def example_trainer_def base_args_def
        example_env_def map_add_def)
qed

text \<open>
  Claim C10. When \<^verbatim>\<open>evaluate_generated_text\<close> is false, \<^verbatim>\<open>eval_model\<close> never returns a
  result: it always raises. Whenever the loss loop has completed over at least one batch
  and the directory and the file could be written, the exception is the unbound name of
  the return statement, raised after the results file was written and \<^verbatim>\<open>eval_loss\<close> was
  merged into the trainer's results.
\<close>

theorem eval_model_unbound_predictions:
  "(\<not> evaluate_generated_text (args self) \<longrightarrow> (\<exists>e. snd (eval_model env self fs) = Inl e))
   \<and> (\<not> evaluate_generated_text (args self)
      \<and> eval_loop env self (int (length (test_dl self))) 0 (0, 0, []) (test_dl self)
          = Inr (loss_sum, nb, ranges)
      \<and> test_dl self \<noteq> []
      \<and> makedirs (output_dir (args self)) fs = Inr fs1
      \<and> path_join (output_dir (args self)) ''eval_results.txt'' \<notin> dirs fs1
     \<longrightarrow> snd (eval_model env self fs) = Inl UnboundLocalError
       \<and> files (snd (fst (eval_model env self fs)))
           (path_join (output_dir (args self)) ''eval_results.txt'')
         = Some (''eval_loss = '' @ float_str env (loss_sum / real_of_int nb) @ [CHR 0x0A])
       \<and> map_of (results (fst (fst (eval_model env self fs)))) ''eval_loss''
         = Some (MFloat (loss_sum / real_of_int nb)))"
proof (intro conjI impI)
  show "\<exists>e. snd (eval_model env self fs) = Inl e"
    by (rule eval_model_no_return)
next
  assume a: "\<not> evaluate_generated_text (args self)
      \<and> eval_loop env self (int (length (test_dl self))) 0 (0, 0, []) (test_dl self)
          = Inr (loss_sum, nb, ranges)
      \<and> test_dl self \<noteq> []
      \<and> makedirs (output_dir (args self)) fs = Inr fs1
      \<and> path_join (output_dir (args self)) ''eval_results.txt'' \<notin> dirs fs1"
  then have e: "eval_model env self fs =
      ((self\<lparr>results :=
           dict_update (results self) [(''eval_loss'', MFloat (loss_sum / real_of_int nb))]\<rparr>,
        fs\<lparr>dirs := insert (output_dir (args self)) (dirs fs),
           files := (files fs)(path_join (output_dir (args self)) ''eval_results.txt'' \<mapsto>
                      ''eval_loss = '' @ float_str env (loss_sum / real_of_int nb) @ [CHR 0x0A])\<rparr>),
       Inl UnboundLocalError)"
    using eval_model_completed(2) [of env self loss_sum nb ranges fs fs1] by simp
  show "snd (eval_model env self fs) = Inl UnboundLocalError"
    by (simp add: e)
  show "files (snd (fst (eval_model env self fs)))
           (path_join (output_dir (args self)) ''eval_results.txt'')
         = Some (''eval_loss = '' @ float_str env (loss_sum / real_of_int nb) @ [CHR 0x0A])"
    by (simp add: e)
  show "map_of (results (fst (fst (eval_model env self fs)))) ''eval_loss''
         = Some (MFloat (loss_sum / real_of_int nb))"
    by (simp add: e map_of_dict_update)
qed

theorem eval_model_unbound_predictions_witness:
  "snd (eval_model example_env example_trainer empty_fs) = Inl UnboundLocalError
   \<and> files (snd (fst (eval_model example_env example_trainer empty_fs))) ''out/eval_results.txt''
       = Some (''eval_loss = 1.0'' @ [CHR 0x0A])
   \<and> map_of (results (fst (fst (eval_model example_env example_trainer empty_fs)))) ''eval_loss''
       = Some (MFloat 1)"
proof -
  have f: "\<not> evaluate_generated_text (args example_trainer)"
    by (simp add: example_trainer_def base_args_def)
  have t: "test_dl example_trainer = [example_batch, example_batch, example_batch]"
    by (simp add: example_trainer_def)
  obtain ranges where l: "eval_loop example_env example_trainer
      (int (length (test_dl example_trainer))) 0 (0, 0, []) (test_dl example_trainer)
      = Inr (3, 3, ranges)"
    unfolding t using example_eval_loop [of example_trainer]
    by (simp add: example_trainer_def base_args_def)
  have n: "test_dl example_trainer \<noteq> []" by (simp add: t)
  have m: "makedirs (output_dir (args example_trainer)) empty_fs
      = Inr (empty_fs\<lparr>dirs := {''out''}\<rparr>)"
    by (simp add: makedirs_def example_trainer_def base_args_def empty_fs_def)
  have d: "path_join (output_dir (args example_trainer)) ''eval_results.txt''
      \<notin> dirs (empty_fs\<lparr>dirs := {''out''}\<rparr>)"
    by (simp add: path_join_def example_trainer_def base_args_def)
  from eval_model_unbound_predictions [of example_trainer example_env empty_fs 3 3 ranges
      "empty_fs\<lparr>dirs := {''out''}\<rparr>"] f l n m d
  show ?thesis
    by (simp add: path_join_def example_trainer_def base_args_def example_env_def)
qed

section \<open>Properties of the evaluation index ranges\<close>

lemma eval_loop_ranges:
  assumes "eval_loop env self n i (l, nb, rs) bs = Inr (l', nb', rs')"
  shows "rs' = rs @ map (\<lambda>j. (i + int j,
                  batch_range (eval_batch_size (args self)) n (test_dataset_len self) (i + int j)))
                [0..<length bs]"
  using assms
proof (induction bs arbitrary: i l nb rs)
  case Nil
  then show ?case by simp
next
  case (Cons b bs)
  from Cons.prems obtain t where
    "eval_loop env self n (i + 1)
       (l + t, nb + 1,
        rs @ [(i, batch_range (eval_batch_size (args self)) n (test_dataset_len self) i)]) bs
     = Inr (l', nb', rs')"
    by (auto split: sum.splits)
  from Cons.IH [OF this] show ?case
    by (simp add: upt_conv_Cons map_Suc_upt [symmetric] o_def add.assoc
        del: upt_Suc map_Suc_upt)
qed

text \<open>
  Claim C7. For batch index \<open>i\<close>, eval batch size \<open>b\<close>, \<open>n_batches\<close> batches and
  \<open>test_sample_len\<close> samples, the range starts at \<open>i * b\<close>; it ends at \<open>start + b\<close> for
  every batch but the last and at \<open>test_sample_len\<close> for the last batch
  (\<open>i = n_batches - 1\<close>). For \<open>b = 8\<close> and 21 samples in three batches the ranges are
  (0,8), (8,16), (16,21). A completed evaluation loop has logged exactly these ranges, for
  the batch indices from 0 in their order.
\<close>

theorem batch_range_clamped:
  "fst (batch_range b n_batches test_sample_len i) = i * b
   \<and> (i \<noteq> n_batches - 1 \<longrightarrow>
        snd (batch_range b n_batches test_sample_len i)
          = fst (batch_range b n_batches test_sample_len i) + b)
   \<and> (i = n_batches - 1 \<longrightarrow> snd (batch_range b n_batches test_sample_len i) = test_sample_len)
   \<and> map (batch_range 8 3 21) [0, 1, 2] = [(0, 8), (8, 16), (16, 21)]
   \<and> (eval_loop env self n 0 (0, 0, []) bs = Inr (l, nb, rs) \<longrightarrow>
        rs = map (\<lambda>j. (int j, batch_range (eval_batch_size (args self)) n
                                  (test_dataset_len self) (int j))) [0..<length bs])"
  using eval_loop_ranges [of env self n 0 0 0 "[]" bs l nb rs]
  by (simp add: batch_range_def Let_def)

theorem batch_range_clamped_witness:
  "batch_range 8 3 21 1 = (8, 16) \<and> batch_range 8 3 21 2 = (16, 21)
   \<and> (\<exists>l nb. eval_loop example_env example_trainer 3 0 (0, 0, []) (test_dl example_trainer)
        = Inr (l, nb, [(0, 0, 8), (1, 8, 16), (2, 16, 21)]))"
proof -
  have e: "eval_loop example_env example_trainer 3 0 (0, 0, []) (test_dl example_trainer)
      = Inr (3, 3, [(0, batch_range 8 3 21 0), (1, batch_range 8 3 21 1),
                    (2, batch_range 8 3 21 2)])"
    using example_eval_loop [of example_trainer]
    by (simp add: example_trainer_def base_args_def)
  from batch_range_clamped [of 8 3 21 1] batch_range_clamped [of 8 3 21 2]
    batch_range_clamped [of 8 3 21 0 example_env example_trainer 3 "test_dl example_trainer"
      3 3 "[(0, batch_range 8 3 21 0), (1, batch_range 8 3 21 1), (2, batch_range 8 3 21 2)]"]
    e
  show ?thesis by (simp add: batch_range_def Let_def)
qed

end
